theory Spec2Isabelle
  imports Complex_Main "HOL-Library.Sublist" "HOL-Library.AList"
begin

section \<open>Python values used by the organizer\<close>

text \<open>
  Strings are byte lists. \<open>str.lower\<close> and \<open>str.strip\<close> are modelled on the ASCII
  range (every key, extension and keyword of the registry is ASCII); other bytes are left
  unchanged.
\<close>

definition lower_char :: "char \<Rightarrow> char" where
  "lower_char c =
     (case map_of (zip ''ABCDEFGHIJKLMNOPQRSTUVWXYZ'' ''abcdefghijklmnopqrstuvwxyz'') c of
        None \<Rightarrow> c
      | Some d \<Rightarrow> d)"

definition lower :: "string \<Rightarrow> string" where
  "lower s = map lower_char s"

definition is_space :: "char \<Rightarrow> bool" where
  "is_space c =
     (c \<in> set [CHR 0x09, CHR 0x0A, CHR 0x0B, CHR 0x0C, CHR 0x0D, CHR 0x1C, CHR 0x1D, CHR 0x1E,
                CHR 0x1F, CHR 0x20])"

definition strip :: "string \<Rightarrow> string" where
  "strip s = rev (dropWhile is_space (rev (dropWhile is_space s)))"

text \<open>\<open>contains s sub\<close> is Python's \<open>sub in s\<close> on strings.\<close>

fun contains :: "string \<Rightarrow> string \<Rightarrow> bool" where
  "contains [] sub = (sub = [])"
| "contains (c # cs) sub = (prefix sub (c # cs) \<or> contains cs sub)"

text \<open>
  \<open>split sep s\<close> is \<open>s.split(sep)\<close> for a non-empty separator: the pieces between
  the non-overlapping occurrences of \<open>sep\<close>, found from the left.
\<close>

function split_acc :: "string \<Rightarrow> string \<Rightarrow> string \<Rightarrow> string list" where
  "split_acc sep cur [] = [rev cur]"
| "split_acc sep cur (c # cs) =
     (if sep \<noteq> [] \<and> prefix sep (c # cs)
      then rev cur # split_acc sep [] (drop (length sep) (c # cs))
      else split_acc sep (c # cur) cs)"
  by pat_completeness auto
termination
  by (relation "measure (\<lambda>(sep, cur, s). length s)") auto

definition split :: "string \<Rightarrow> string \<Rightarrow> string list" where
  "split sep s = split_acc sep [] s"

datatype py_error =
    JSONDecodeError | KeyError | ValueError | TypeError | AttributeError | IndexError
  | FileNotFoundError | FileExistsError | NotADirectoryError | IsADirectoryError | ShutilError
  | DirectoryNotEmpty | RecursionError

text \<open>The exceptions above that are subclasses of \<open>OSError\<close>.\<close>

definition is_OSError :: "py_error \<Rightarrow> bool" where
  "is_OSError e = (e = FileNotFoundError \<or> e = FileExistsError \<or> e = NotADirectoryError
                   \<or> e = IsADirectoryError \<or> e = ShutilError \<or> e = DirectoryNotEmpty)"

definition index :: "'a list \<Rightarrow> nat \<Rightarrow> py_error + 'a" where
  "index xs i = (if i < length xs then Inr (xs ! i) else Inl IndexError)"

text \<open>
  What \<open>json.loads\<close> returns. Python floats are modelled as reals: only their order
  and the literals \<open>0.3\<close>, \<open>0.7\<close>, \<open>0.8\<close>, \<open>0.9\<close>, \<open>1.0\<close> matter here (no NaN, no
  infinities).
\<close>

datatype json =
    JNull | JBool bool | JNum real | JStr string | JArr "json list" | JObj "(string \<times> json) list"

text \<open>\<open>data.get(key, default)\<close>: only a dict has \<open>get\<close>.\<close>

fun dict_get :: "json \<Rightarrow> string \<Rightarrow> json \<Rightarrow> py_error + json" where
  "dict_get (JObj kvs) k d = Inr (case map_of kvs k of None \<Rightarrow> d | Some v \<Rightarrow> v)"
| "dict_get _ k d = Inl AttributeError"

text \<open>\<open>data[key]\<close> on a dict.\<close>

fun dict_item :: "json \<Rightarrow> string \<Rightarrow> py_error + json" where
  "dict_item (JObj kvs) k = (case map_of kvs k of None \<Rightarrow> Inl KeyError | Some v \<Rightarrow> Inr v)"
| "dict_item _ k = Inl TypeError"

text \<open>\<open>v.lower()\<close>: only a string has \<open>lower\<close>.\<close>

fun str_lower :: "json \<Rightarrow> py_error + string" where
  "str_lower (JStr s) = Inr (lower s)"
| "str_lower _ = Inl AttributeError"

text \<open>
  \<open>float(v)\<close>; the parsing of a string argument is the library's, taken as a parameter
  (\<open>None\<close> is its \<open>ValueError\<close>).
\<close>

fun py_float :: "(string \<Rightarrow> real option) \<Rightarrow> json \<Rightarrow> py_error + real" where
  "py_float p (JNum r) = Inr r"
| "py_float p (JBool b) = Inr (if b then 1 else 0)"
| "py_float p (JStr s) = (case p s of None \<Rightarrow> Inl ValueError | Some r \<Rightarrow> Inr r)"
| "py_float p _ = Inl TypeError"

section \<open>categories.py\<close>

record category =
  cat_name :: string
  cat_path :: string
  description :: string
  extensions :: "string set"
  cat_keywords :: "string set"

definition Category :: "string \<Rightarrow> string \<Rightarrow> string \<Rightarrow> string set \<Rightarrow> string set \<Rightarrow> category" where
  "Category n p d es ks =
     \<lparr>cat_name = n, cat_path = p, description = d, extensions = es, cat_keywords = ks\<rparr>"

text \<open>The registry, in declaration order (a Python dict keeps insertion order).\<close>

definition CATEGORIES :: "(string \<times> category) list" where
  "CATEGORIES =
   [(''work'', Category ''Work Documents'' ''Documents/Work''
       ''Work-related documents, reports, presentations''
       {''.doc'', ''.docx'', ''.ppt'', ''.pptx'', ''.xls'', ''.xlsx'', ''.odt'', ''.ods'', ''.odp''}
       {''report'', ''meeting'', ''project'', ''proposal'', ''invoice'', ''contract'', ''agenda'',
        ''memo''}),
    (''personal'', Category ''Personal Documents'' ''Documents/Personal''
       ''Personal documents, letters, notes''
       {}
       {''personal'', ''diary'', ''journal'', ''letter'', ''note'', ''todo'', ''list''}),
    (''financial'', Category ''Financial Documents'' ''Documents/Financial''
       ''Financial records, receipts, tax documents''
       {}
       {''tax'', ''receipt'', ''invoice'', ''bank'', ''statement'', ''budget'', ''expense'',
        ''payment'', ''salary''}),
    (''legal'', Category ''Legal Documents'' ''Documents/Legal''
       ''Legal documents, contracts, agreements''
       {}
       {''legal'', ''contract'', ''agreement'', ''license'', ''terms'', ''policy'', ''nda'',
        ''court'', ''law''}),
    (''ebooks'', Category ''eBooks'' ''Documents/eBooks''
       ''Electronic books and publications''
       {''.epub'', ''.mobi'', ''.azw'', ''.azw3''}
       {''ebook'', ''book'', ''novel'', ''guide'', ''manual''}),
    (''pdf'', Category ''PDFs'' ''Documents/PDFs''
       ''PDF documents''
       {''.pdf''}
       {}),
    (''python'', Category ''Python Code'' ''Code/Python''
       ''Python source files''
       {''.py'', ''.pyw'', ''.pyx'', ''.pxd'', ''.pyi''}
       {}),
    (''javascript'', Category ''JavaScript Code'' ''Code/JavaScript''
       ''JavaScript and TypeScript files''
       {''.js'', ''.jsx'', ''.ts'', ''.tsx'', ''.mjs'', ''.cjs''}
       {}),
    (''web'', Category ''Web Files'' ''Code/Web''
       ''HTML, CSS, and web assets''
       {''.html'', ''.htm'', ''.css'', ''.scss'', ''.sass'', ''.less'', ''.svg''}
       {}),
    (''code_other'', Category ''Other Code'' ''Code/Other''
       ''Other programming languages''
       {''.java'', ''.c'', ''.cpp'', ''.h'', ''.hpp'', ''.cs'', ''.go'', ''.rs'', ''.rb'',
        ''.php'', ''.swift'', ''.kt'', ''.scala'', ''.r'', ''.m'', ''.mm'', ''.sql'',
        ''.sh'', ''.bash'', ''.zsh'', ''.ps1'', ''.bat'', ''.cmd''}
       {}),
    (''config'', Category ''Config Files'' ''Code/Config''
       ''Configuration and settings files''
       {''.json'', ''.yaml'', ''.yml'', ''.toml'', ''.ini'', ''.cfg'', ''.conf'',
        ''.env'', ''.properties'', ''.xml''}
       {''config'', ''settings'', ''preferences''}),
    (''photos'', Category ''Photos'' ''Media/Photos''
       ''Image files and photographs''
       {''.jpg'', ''.jpeg'', ''.png'', ''.gif'', ''.bmp'', ''.webp'', ''.heic'', ''.heif'',
        ''.raw'', ''.cr2'', ''.nef'', ''.arw''}
       {''photo'', ''image'', ''picture'', ''screenshot'', ''img'', ''pic''}),
    (''videos'', Category ''Videos'' ''Media/Videos''
       ''Video files''
       {''.mp4'', ''.avi'', ''.mkv'', ''.mov'', ''.wmv'', ''.flv'', ''.webm'', ''.m4v'',
        ''.mpeg'', ''.mpg'', ''.3gp''}
       {''video'', ''movie'', ''clip'', ''recording''}),
    (''music'', Category ''Music'' ''Media/Music''
       ''Audio and music files''
       {''.mp3'', ''.wav'', ''.flac'', ''.aac'', ''.ogg'', ''.wma'', ''.m4a'', ''.aiff'', ''.alac''}
       {''music'', ''song'', ''audio'', ''track'', ''podcast''}),
    (''graphics'', Category ''Graphics'' ''Media/Graphics''
       ''Design and graphics files''
       {''.psd'', ''.ai'', ''.eps'', ''.indd'', ''.sketch'', ''.fig'', ''.xd'', ''.afdesign'',
        ''.afphoto''}
       {''design'', ''graphic'', ''logo'', ''icon'', ''banner''}),
    (''archives'', Category ''Archives'' ''Archives''
       ''Compressed files and archives''
       {''.zip'', ''.rar'', ''.7z'', ''.tar'', ''.gz'', ''.bz2'', ''.xz'', ''.tgz'', ''.tbz2''}
       {''backup'', ''archive''}),
    (''data'', Category ''Data Files'' ''Data''
       ''Data files, spreadsheets, databases''
       {''.csv'', ''.tsv'', ''.parquet'', ''.sqlite'', ''.db'', ''.mdb'', ''.accdb''}
       {''data'', ''dataset'', ''export'', ''import''}),
    (''installers'', Category ''Installers'' ''Applications/Installers''
       ''Application installers and packages''
       {''.dmg'', ''.pkg'', ''.msi'', ''.exe'', ''.deb'', ''.rpm'', ''.appimage'', ''.snap''}
       {''install'', ''setup'', ''installer''}),
    (''misc'', Category ''Miscellaneous'' ''Misc''
       ''Uncategorized files''
       {}
       {})]"

text \<open>\<open>get_category_by_extension\<close>: the first category, in registry order, whose
  extension set holds the lower-cased extension.\<close>

definition get_category_by_extension :: "string \<Rightarrow> category option" where
  "get_category_by_extension extension =
     (let ext = lower extension
      in find (\<lambda>category. ext \<in> extensions category) (map snd CATEGORIES))"

text \<open>\<open>get_category_by_keywords\<close>: the first category one of whose keywords occurs in
  the lower-cased file name (the order in which one category's keywords are tried does not
  change which category is returned).\<close>

definition get_category_by_keywords :: "string \<Rightarrow> category option" where
  "get_category_by_keywords filename =
     (let name_lower = lower filename
      in find (\<lambda>category. \<exists>keyword \<in> cat_keywords category. contains name_lower keyword)
           (map snd CATEGORIES))"

text \<open>\<open>get_fallback_category\<close> is \<open>CATEGORIES["misc"]\<close>, a dict lookup.\<close>

definition get_fallback_category :: "py_error + category" where
  "get_fallback_category =
     (case map_of CATEGORIES ''misc'' of None \<Rightarrow> Inl KeyError | Some c \<Rightarrow> Inr c)"

section \<open>scanner.py: the file record\<close>

text \<open>A \<open>Path\<close> is the list of its components below the root; all paths are absolute and
  normalised, as \<open>resolve()\<close> leaves them in \<open>organizer.py\<close>.\<close>

type_synonym path = "string list"

record datetime =
  year :: nat
  month :: nat
  day :: nat
  hour :: nat
  minute :: nat
  second :: nat
  microsecond :: nat

record file_info =
  path :: path
  name :: string
  extension :: string
  size_bytes :: nat
  modified_time :: datetime
  created_time :: datetime
  content :: "string option"
  mime_type :: "string option"

section \<open>analyzer.py\<close>

text \<open>\<open>reasoning\<close> is declared \<open>str\<close>, but the model tier stores whatever JSON value the
  backend sent under that key.\<close>

record analysis_result =
  file_info :: file_info
  category :: category
  confidence :: real
  reasoning :: json
  method_tag :: string

text \<open>
  The analyzer object: \<open>_client\<close> is \<open>None\<close> before the probe, \<open>False\<close> after a failed
  one and the client handle after a successful one; \<open>_ollama_available\<close> is \<open>None\<close>
  until it is set.
\<close>

datatype client = Unprobed | NoClient | Client

record file_analyzer =
  client_field :: client
  ollama_available_field :: "bool option"

text \<open>
  What the analyzer cannot decide by itself: whether importing and connecting to the
  backend succeeds, what the backend's chat call returns for a file (\<open>None\<close>: the call, or
  reading \<open>response['message']['content']\<close>, raised), and the library's \<open>json.loads\<close>
  (\<open>None\<close>: \<open>JSONDecodeError\<close>) and string-to-float parsing.
\<close>

record backend =
  connect_ok :: bool
  chat :: "file_info \<Rightarrow> string option"
  json_loads :: "string \<Rightarrow> json option"
  str_to_float :: "string \<Rightarrow> real option"

definition get_client :: "backend \<Rightarrow> file_analyzer \<Rightarrow> bool \<times> file_analyzer" where
  "get_client env a =
     (let a' = (if client_field a = Unprobed
                then (if connect_ok env
                      then a\<lparr>client_field := Client, ollama_available_field := Some True\<rparr>
                      else a\<lparr>ollama_available_field := Some False, client_field := NoClient\<rparr>)
                else a)
      in (client_field a' = Client, a'))"

text \<open>The property \<open>ollama_available\<close>; the result is the truth value of what it returns.\<close>

definition ollama_available :: "backend \<Rightarrow> file_analyzer \<Rightarrow> bool \<times> file_analyzer" where
  "ollama_available env a =
     (let a' = (if ollama_available_field a = None then snd (get_client env a) else a)
      in (ollama_available_field a' = Some True, a'))"

text \<open>The fenced-block stripping at the head of \<open>_parse_ai_response\<close>.\<close>

definition strip_fences :: "string \<Rightarrow> py_error + string" where
  "strip_fences response =
     (if contains response ''```json''
      then (case index (split ''```json'' response) 1 of
              Inl e \<Rightarrow> Inl e
            | Inr r \<Rightarrow> index (split ''```'' r) 0)
      else if contains response ''```''
      then (case index (split ''```'' response) 1 of
              Inl e \<Rightarrow> Inl e
            | Inr r \<Rightarrow> index (split ''```'' r) 0)
      else Inr response)"

text \<open>The category validation of \<open>_parse_ai_response\<close>: the reported name if it is a key
  of the registry, else the first key that contains it or is contained in it.\<close>

definition validate_category :: "string \<Rightarrow> string option" where
  "validate_category category_name =
     (if category_name \<in> set (map fst CATEGORIES) then Some category_name
      else find (\<lambda>key. contains category_name key \<or> contains key category_name)
             (map fst CATEGORIES))"

text \<open>The body of the \<open>try\<close> block of \<open>_parse_ai_response\<close> from \<open>json.loads\<close>'s result
  on; \<open>Inl\<close> is a raised exception, \<open>Inr None\<close> the \<open>return None\<close>.\<close>

definition parse_ai_data ::
  "backend \<Rightarrow> file_info \<Rightarrow> json \<Rightarrow> py_error + analysis_result option" where
  "parse_ai_data env fi data =
     (case dict_get data ''category'' (JStr []) of Inl e \<Rightarrow> Inl e | Inr c \<Rightarrow>
      case str_lower c of Inl e \<Rightarrow> Inl e | Inr category_name \<Rightarrow>
      case dict_get data ''confidence'' (JNum (8 / 10)) of Inl e \<Rightarrow> Inl e | Inr cf \<Rightarrow>
      case py_float (str_to_float env) cf of Inl e \<Rightarrow> Inl e | Inr confidence' \<Rightarrow>
      case dict_get data ''reasoning'' (JStr ''AI classification'') of Inl e \<Rightarrow> Inl e
      | Inr reasoning' \<Rightarrow>
      case validate_category category_name of None \<Rightarrow> Inr None | Some key \<Rightarrow>
      case map_of CATEGORIES key of None \<Rightarrow> Inl KeyError | Some cat \<Rightarrow>
        Inr (Some \<lparr>file_info = fi, category = cat, confidence = min confidence' 1,
                   reasoning = reasoning', method_tag = ''ai''\<rparr>))"

text \<open>\<open>_parse_ai_response\<close>: the \<open>except\<close> clause turns \<open>JSONDecodeError\<close>, \<open>KeyError\<close>
  and \<open>ValueError\<close> into \<open>None\<close>; any other exception leaves the function.\<close>

definition parse_ai_response ::
  "backend \<Rightarrow> file_info \<Rightarrow> string \<Rightarrow> py_error + analysis_result option" where
  "parse_ai_response env fi response =
     (let r = (case strip_fences response of Inl e \<Rightarrow> Inl e | Inr text \<Rightarrow>
               case json_loads env (strip text) of None \<Rightarrow> Inl JSONDecodeError
               | Some data \<Rightarrow> parse_ai_data env fi data)
      in case r of
           Inl e \<Rightarrow> (if e = JSONDecodeError \<or> e = KeyError \<or> e = ValueError
                     then Inr None else Inl e)
         | Inr res \<Rightarrow> Inr res)"

text \<open>\<open>_analyze_with_ai\<close>: everything raised inside its \<open>try\<close> is caught.\<close>

definition analyze_with_ai ::
  "backend \<Rightarrow> file_analyzer \<Rightarrow> file_info \<Rightarrow> analysis_result option \<times> file_analyzer" where
  "analyze_with_ai env a fi =
     (case get_client env a of (has_client, a') \<Rightarrow>
        if \<not> has_client then (None, a')
        else (case chat env fi of
                None \<Rightarrow> (None, a')
              | Some text \<Rightarrow>
                  (case parse_ai_response env fi (strip text) of
                     Inl e \<Rightarrow> (None, a')
                   | Inr res \<Rightarrow> (res, a'))))"

text \<open>The three rule-based tiers of \<open>analyze_file\<close>.\<close>

definition analyze_by_rules :: "file_info \<Rightarrow> py_error + analysis_result" where
  "analyze_by_rules fi =
     (case get_category_by_extension (extension fi) of
        Some cat \<Rightarrow>
          Inr \<lparr>file_info = fi, category = cat, confidence = 9 / 10,
               reasoning = JStr (''Matched by file extension: '' @ extension fi),
               method_tag = ''extension''\<rparr>
      | None \<Rightarrow>
          (case get_category_by_keywords (name fi) of
             Some cat \<Rightarrow>
               Inr \<lparr>file_info = fi, category = cat, confidence = 7 / 10,
                    reasoning = JStr ''Matched by filename keywords'', method_tag = ''keyword''\<rparr>
           | None \<Rightarrow>
               (case get_fallback_category of
                  Inl e \<Rightarrow> Inl e
                | Inr cat \<Rightarrow>
                    Inr \<lparr>file_info = fi, category = cat, confidence = 3 / 10,
                         reasoning = JStr ''No matching category found, using fallback'',
                         method_tag = ''fallback''\<rparr>)))"

text \<open>\<open>analyze_file\<close>. The content test comes first and short-circuits: without content
  the backend is not even probed.\<close>

definition analyze_file ::
  "backend \<Rightarrow> file_analyzer \<Rightarrow> file_info \<Rightarrow> py_error + (analysis_result \<times> file_analyzer)" where
  "analyze_file env a fi =
     (if content fi \<noteq> None \<and> content fi \<noteq> Some []
      then (case ollama_available env a of (avail, a1) \<Rightarrow>
              if avail
              then (case analyze_with_ai env a1 fi of
                      (Some result, a2) \<Rightarrow> Inr (result, a2)
                    | (None, a2) \<Rightarrow>
                        (case analyze_by_rules fi of Inl e \<Rightarrow> Inl e | Inr r \<Rightarrow> Inr (r, a2)))
              else (case analyze_by_rules fi of Inl e \<Rightarrow> Inl e | Inr r \<Rightarrow> Inr (r, a1)))
      else (case analyze_by_rules fi of Inl e \<Rightarrow> Inl e | Inr r \<Rightarrow> Inr (r, a)))"

subsection \<open>Sample inputs for the analyzer\<close>

definition sample_time :: datetime where
  "sample_time = \<lparr>year = 2024, month = 5, day = 17, hour = 9, minute = 30, second = 12,
                    microsecond = 250000\<rparr>"

definition sample_pdf :: file_info where
  "sample_pdf = \<lparr>path = [''home'', ''u'', ''report.pdf''], name = ''report.pdf'',
                   extension = ''.pdf'', size_bytes = 5, modified_time = sample_time,
                   created_time = sample_time, content = Some ''hello'', mime_type = None\<rparr>"

definition fresh_analyzer :: file_analyzer where
  "fresh_analyzer = \<lparr>client_field = Unprobed, ollama_available_field = None\<rparr>"

text \<open>A backend that answers every file with one fixed JSON object; \<open>json.loads\<close> is
  only needed on that one text.\<close>

definition fixed_backend :: "string \<Rightarrow> json \<Rightarrow> backend" where
  "fixed_backend text obj =
     \<lparr>connect_ok = True, chat = (\<lambda>fi. Some text),
      json_loads = (\<lambda>s. if s = text then Some obj else None),
      str_to_float = (\<lambda>s. None)\<rparr>"

definition negative_reply :: json where
  "negative_reply = JObj [(''category'', JStr ''work''), (''confidence'', JNum (- (1 / 2))),
                          (''reasoning'', JStr ''looks like a report'')]"

definition work_reply :: json where
  "work_reply = JObj [(''category'', JStr ''work''), (''confidence'', JNum (95 / 100)),
                      (''reasoning'', JStr ''looks like a report'')]"

definition reply_text :: string where
  "reply_text = ''{category: work}''"

text \<open>The first tier of \<open>analyze_file\<close> on its own: what the model tier yields for a file,
  \<open>None\<close> when it is not attempted or gives no answer.\<close>

definition model_tier :: "backend \<Rightarrow> file_analyzer \<Rightarrow> file_info \<Rightarrow> analysis_result option" where
  "model_tier env a fi =
     (if content fi \<noteq> None \<and> content fi \<noteq> Some []
      then (case ollama_available env a of (avail, a1) \<Rightarrow>
              if avail then fst (analyze_with_ai env a1 fi) else None)
      else None)"

section \<open>Paths and the filesystem\<close>

text \<open>Decimal printing, as \<open>str(n)\<close> and the f-strings do it.\<close>

definition digit_char :: "nat \<Rightarrow> char" where
  "digit_char d = ''0123456789'' ! d"

function show_nat :: "nat \<Rightarrow> string" where
  "show_nat n = (if n < 10 then [digit_char n] else show_nat (n div 10) @ [digit_char (n mod 10)])"
  by pat_completeness auto
termination
  by (relation "measure id") auto

declare show_nat.simps [simp del]

text \<open>\<open>pad w n\<close>: \<open>n\<close> in decimal, zero-padded to at least \<open>w\<close> digits.\<close>

definition pad :: "nat \<Rightarrow> nat \<Rightarrow> string" where
  "pad w n = replicate (w - length (show_nat n)) (CHR ''0'') @ show_nat n"

text \<open>\<open>Path.parent\<close> and \<open>Path.name\<close>; the root is its own parent and has the empty name.\<close>

definition parent :: "path \<Rightarrow> path" where
  "parent p = butlast p"

definition path_name :: "path \<Rightarrow> string" where
  "path_name p = (if p = [] then [] else last p)"

text \<open>The components of a path given as a string: pathlib drops empty and \<open>.\<close> parts.\<close>

definition parts :: "string \<Rightarrow> path" where
  "parts s = filter (\<lambda>c. c \<noteq> [] \<and> c \<noteq> ''.'') (split ''/'' s)"

text \<open>\<open>p / s\<close> for a string \<open>s\<close>: an absolute \<open>s\<close> replaces \<open>p\<close>.\<close>

definition joinpath :: "path \<Rightarrow> string \<Rightarrow> path" where
  "joinpath p s = (if prefix ''/'' s then parts s else p @ parts s)"

text \<open>\<open>p / n\<close> where \<open>n\<close> is a single component (the \<open>name\<close> of another path, or a
  generated file name).\<close>

definition join_name :: "path \<Rightarrow> string \<Rightarrow> path" where
  "join_name p n = p @ [n]"

text \<open>\<open>str(path)\<close> and \<open>Path(string)\<close>.\<close>

definition str_of_path :: "path \<Rightarrow> string" where
  "str_of_path p = (if p = [] then ''/'' else concat (map (\<lambda>c. CHR ''/'' # c) p))"

definition path_of_str :: "string \<Rightarrow> path" where
  "path_of_str s = parts s"

text \<open>\<open>Path.suffix\<close> and \<open>Path.stem\<close>: the name is cut at its last dot, unless that dot is
  the first or the last character of the name.\<close>

definition rfind_dot :: "string \<Rightarrow> nat option" where
  "rfind_dot n =
     (if CHR ''.'' \<in> set n
      then Some (length n - 1 - length (takeWhile (\<lambda>c. c \<noteq> CHR ''.'') (rev n)))
      else None)"

definition suffix_of :: "path \<Rightarrow> string" where
  "suffix_of p =
     (let n = path_name p
      in case rfind_dot n of
           None \<Rightarrow> []
         | Some i \<Rightarrow> if 0 < i \<and> i < length n - 1 then drop i n else [])"

definition stem_of :: "path \<Rightarrow> string" where
  "stem_of p =
     (let n = path_name p
      in case rfind_dot n of
           None \<Rightarrow> n
         | Some i \<Rightarrow> if 0 < i \<and> i < length n - 1 then take i n else n)"

text \<open>
  The filesystem: the entries below the root, each a regular file with its bytes or a
  directory. The root always exists and is a directory. No permissions, links or devices.
\<close>

datatype node = File string | Dir

type_synonym filesystem = "(path \<times> node) list"

definition lookup :: "filesystem \<Rightarrow> path \<Rightarrow> node option" where
  "lookup fs p = (if p = [] then Some Dir else map_of fs p)"

definition path_exists :: "filesystem \<Rightarrow> path \<Rightarrow> bool" where
  "path_exists fs p = (lookup fs p \<noteq> None)"

definition is_dir :: "filesystem \<Rightarrow> path \<Rightarrow> bool" where
  "is_dir fs p = (lookup fs p = Some Dir)"

definition is_file :: "filesystem \<Rightarrow> path \<Rightarrow> bool" where
  "is_file fs p = (case lookup fs p of Some (File b) \<Rightarrow> True | _ \<Rightarrow> False)"

text \<open>The states an operating system can present: no path is listed twice, and every
  entry lies in a directory.\<close>

definition wf_fs :: "filesystem \<Rightarrow> bool" where
  "wf_fs fs = (distinct (map fst fs) \<and> (\<forall>p \<in> set (map fst fs). p \<noteq> [] \<and> is_dir fs (parent p)))"

text \<open>\<open>Path.iterdir\<close>: the entries directly inside a directory.\<close>

definition iterdir :: "filesystem \<Rightarrow> path \<Rightarrow> py_error + path list" where
  "iterdir fs d =
     (case lookup fs d of
        None \<Rightarrow> Inl FileNotFoundError
      | Some (File b) \<Rightarrow> Inl NotADirectoryError
      | Some Dir \<Rightarrow> Inr (filter (\<lambda>p. p \<noteq> [] \<and> parent p = d) (map fst fs)))"

text \<open>\<open>Path.mkdir(parents=True, exist_ok=True)\<close>: fails when the path or one of its
  ancestors is a regular file, and creates nothing then; otherwise creates every missing
  directory on the way.\<close>

definition mkdir_parents :: "filesystem \<Rightarrow> path \<Rightarrow> py_error + filesystem" where
  "mkdir_parents fs p =
     (if is_file fs p then Inl FileExistsError
      else if \<exists>q \<in> set (prefixes p). is_file fs q then Inl NotADirectoryError
      else Inr (fold (\<lambda>q fs'. if path_exists fs' q then fs' else AList.update q Dir fs')
                  (prefixes p) fs))"

text \<open>\<open>Path.rmdir\<close>: removes an empty directory.\<close>

definition rmdir :: "filesystem \<Rightarrow> path \<Rightarrow> py_error + filesystem" where
  "rmdir fs d =
     (case iterdir fs d of
        Inl e \<Rightarrow> Inl e
      | Inr children \<Rightarrow>
          if children \<noteq> [] \<or> d = [] then Inl DirectoryNotEmpty else Inr (AList.delete d fs))"

text \<open>\<open>os.rename\<close>, with the file-copy fallback of \<open>shutil.move\<close> folded in (both end in
  the same state, and both fail in the same cases): a regular file replaces a regular file
  at the target; a directory moves with everything below it.\<close>

definition os_rename :: "filesystem \<Rightarrow> path \<Rightarrow> path \<Rightarrow> py_error + filesystem" where
  "os_rename fs src dst =
     (case lookup fs src of
        None \<Rightarrow> Inl FileNotFoundError
      | Some (File b) \<Rightarrow>
          if is_dir fs dst then Inl IsADirectoryError
          else if \<not> is_dir fs (parent dst) then Inl FileNotFoundError
          else Inr (AList.update dst (File b) (AList.delete src fs))
      | Some Dir \<Rightarrow>
          if src = dst then Inr fs
          else if prefix src dst then Inl ShutilError
          else if path_exists fs dst then Inl FileExistsError
          else if \<not> is_dir fs (parent dst) then Inl FileNotFoundError
          else Inr (map (\<lambda>(q, n). if prefix src q then (dst @ drop (length src) q, n) else (q, n))
                      fs))"

text \<open>\<open>shutil.move(src, dst)\<close>: a source moved onto an existing directory goes inside it,
  under its own name.\<close>

definition shutil_move :: "filesystem \<Rightarrow> path \<Rightarrow> path \<Rightarrow> py_error + filesystem" where
  "shutil_move fs src dst =
     (if is_dir fs dst
      then (if src = dst then Inr fs
            else (let real_dst = join_name dst (path_name src)
                  in if path_exists fs real_dst then Inl ShutilError
                     else os_rename fs src real_dst))
      else os_rename fs src dst)"

text \<open>\<open>open(path, 'r')\<close> with \<open>read\<close>, and \<open>open(path, 'w')\<close> with one \<open>write\<close>.\<close>

definition read_file :: "filesystem \<Rightarrow> path \<Rightarrow> py_error + string" where
  "read_file fs p =
     (case lookup fs p of
        None \<Rightarrow> Inl FileNotFoundError
      | Some Dir \<Rightarrow> Inl IsADirectoryError
      | Some (File b) \<Rightarrow> Inr b)"

definition write_file :: "filesystem \<Rightarrow> path \<Rightarrow> string \<Rightarrow> py_error + filesystem" where
  "write_file fs p b =
     (if is_dir fs p then Inl IsADirectoryError
      else if \<not> is_dir fs (parent p) then Inl FileNotFoundError
      else Inr (AList.update p (File b) fs))"

section \<open>mover.py\<close>

subsection \<open>Timestamps\<close>

text \<open>\<open>strftime('%Y%m%d_%H%M%S')\<close> and \<open>isoformat()\<close> of a \<open>datetime\<close>.\<close>

definition strftime_id :: "datetime \<Rightarrow> string" where
  "strftime_id t =
     pad 4 (year t) @ pad 2 (month t) @ pad 2 (day t) @ ''_''
       @ pad 2 (hour t) @ pad 2 (minute t) @ pad 2 (second t)"

definition isoformat :: "datetime \<Rightarrow> string" where
  "isoformat t =
     pad 4 (year t) @ ''-'' @ pad 2 (month t) @ ''-'' @ pad 2 (day t) @ ''T''
       @ pad 2 (hour t) @ '':'' @ pad 2 (minute t) @ '':'' @ pad 2 (second t)
       @ (if microsecond t = 0 then [] else ''.'' @ pad 6 (microsecond t))"

subsection \<open>Operations and sessions\<close>

text \<open>
  \<open>source\<close>, \<open>destination\<close>, \<open>source_directory\<close> and \<open>output_directory\<close> hold
  \<open>str(path)\<close> in the source and are only ever read back through \<open>Path(...)\<close>; the model
  keeps the path itself and converts at the JSON boundary.
\<close>

record move_operation =
  source :: path
  destination :: path
  op_category :: string
  op_reasoning :: json
  op_timestamp :: string

record organization_session =
  session_id :: string
  timestamp :: string
  source_directory :: path
  output_directory :: path
  operations :: "move_operation list"
  completed :: bool

definition operation_to_dict :: "move_operation \<Rightarrow> json" where
  "operation_to_dict operation =
     JObj [(''source'', JStr (str_of_path (source operation))),
           (''destination'', JStr (str_of_path (destination operation))),
           (''category'', JStr (op_category operation)),
           (''reasoning'', op_reasoning operation),
           (''timestamp'', JStr (op_timestamp operation))]"

definition session_to_dict :: "organization_session \<Rightarrow> json" where
  "session_to_dict s =
     JObj [(''session_id'', JStr (session_id s)),
           (''timestamp'', JStr (timestamp s)),
           (''source_directory'', JStr (str_of_path (source_directory s))),
           (''output_directory'', JStr (str_of_path (output_directory s))),
           (''operations'', JArr (map operation_to_dict (operations s))),
           (''completed'', JBool (completed s))]"

text \<open>Sequencing: an exception in the first step skips the rest.\<close>

definition then_do :: "py_error + 'a \<Rightarrow> ('a \<Rightarrow> py_error + 'b) \<Rightarrow> py_error + 'b" where
  "then_do r f = (case r of Inl e \<Rightarrow> Inl e | Inr x \<Rightarrow> f x)"

text \<open>A list comprehension over a fallible function: the first exception ends it.\<close>

fun map_err :: "('a \<Rightarrow> py_error + 'b) \<Rightarrow> 'a list \<Rightarrow> py_error + 'b list" where
  "map_err f [] = Inr []"
| "map_err f (x # xs) =
     (case f x of
        Inl e \<Rightarrow> Inl e
      | Inr y \<Rightarrow> (case map_err f xs of Inl e \<Rightarrow> Inl e | Inr ys \<Rightarrow> Inr (y # ys)))"

text \<open>Iterating over a JSON value: a list gives its items, a dict its keys, a string its
  characters; nothing else is iterable.\<close>

fun py_iter :: "json \<Rightarrow> py_error + json list" where
  "py_iter (JArr xs) = Inr xs"
| "py_iter (JObj kvs) = Inr (map (\<lambda>kv. JStr (fst kv)) kvs)"
| "py_iter (JStr s) = Inr (map (\<lambda>c. JStr [c]) s)"
| "py_iter _ = Inl TypeError"

text \<open>
  The records are typed. The source stores whatever JSON value it finds under a key and
  fails only when it uses it; the model has no place for a value of the wrong type and
  reports the \<open>TypeError\<close> where the value is read.
\<close>

fun as_str :: "json \<Rightarrow> py_error + string" where
  "as_str (JStr s) = Inr s"
| "as_str _ = Inl TypeError"

fun as_bool :: "json \<Rightarrow> py_error + bool" where
  "as_bool (JBool b) = Inr b"
| "as_bool _ = Inl TypeError"

text \<open>\<open>MoveOperation.from_dict\<close> is \<open>cls(**data)\<close>: the keys must be exactly the five
  field names.\<close>

definition operation_from_dict :: "json \<Rightarrow> py_error + move_operation" where
  "operation_from_dict data =
     (case data of
        JObj kvs \<Rightarrow>
          if set (map fst kvs) \<noteq> {''source'', ''destination'', ''category'', ''reasoning'',
                                     ''timestamp''}
          then Inl TypeError
          else
            then_do (dict_item data ''source'') (\<lambda>v1.
            then_do (as_str v1) (\<lambda>src.
            then_do (dict_item data ''destination'') (\<lambda>v2.
            then_do (as_str v2) (\<lambda>dst.
            then_do (dict_item data ''category'') (\<lambda>v3.
            then_do (as_str v3) (\<lambda>cat.
            then_do (dict_item data ''reasoning'') (\<lambda>why.
            then_do (dict_item data ''timestamp'') (\<lambda>v5.
            then_do (as_str v5) (\<lambda>ts.
              Inr \<lparr>source = path_of_str src, destination = path_of_str dst, op_category = cat,
                   op_reasoning = why, op_timestamp = ts\<rparr>)))))))))
      | _ \<Rightarrow> Inl TypeError)"

text \<open>\<open>OrganizationSession.from_dict\<close>: the operations are read first, then the four
  required keys, then \<open>completed\<close>.\<close>

definition session_from_dict :: "json \<Rightarrow> py_error + organization_session" where
  "session_from_dict data =
     then_do (dict_get data ''operations'' (JArr [])) (\<lambda>opsj.
     then_do (py_iter opsj) (\<lambda>items.
     then_do (map_err operation_from_dict items) (\<lambda>ops.
     then_do (dict_item data ''session_id'') (\<lambda>v1.
     then_do (dict_item data ''timestamp'') (\<lambda>v2.
     then_do (dict_item data ''source_directory'') (\<lambda>v3.
     then_do (dict_item data ''output_directory'') (\<lambda>v4.
     then_do (dict_get data ''completed'' (JBool False)) (\<lambda>v5.
     then_do (as_str v1) (\<lambda>sid.
     then_do (as_str v2) (\<lambda>ts.
     then_do (as_str v3) (\<lambda>sd.
     then_do (as_str v4) (\<lambda>od.
     then_do (as_bool v5) (\<lambda>done.
       Inr \<lparr>session_id = sid, timestamp = ts, source_directory = path_of_str sd,
            output_directory = path_of_str od, operations = ops, completed = done\<rparr>)))))))))))))"

subsection \<open>UndoLog\<close>

text \<open>
  Sessions are objects: \<open>_sessions\<close> is a list of references into a store, so that the
  mover's \<open>_current_session\<close> and the log share one session object, as in the source.
\<close>

record undo_log =
  log_path :: path
  store :: "nat \<Rightarrow> organization_session"
  next_ref :: nat
  session_refs :: "nat list"

definition sessions :: "undo_log \<Rightarrow> organization_session list" where
  "sessions ulog = map (store ulog) (session_refs ulog)"

definition log_to_json :: "undo_log \<Rightarrow> json" where
  "log_to_json ulog = JObj [(''sessions'', JArr (map session_to_dict (sessions ulog)))]"

text \<open>\<open>_save\<close>; \<open>json.dump\<close>'s text is the library's, a parameter. What was done before
  an exception stays done.\<close>

definition save :: "(json \<Rightarrow> string) \<Rightarrow> undo_log \<Rightarrow> filesystem \<Rightarrow> py_error option \<times> filesystem" where
  "save dumps ulog fs =
     (case mkdir_parents fs (parent (log_path ulog)) of
        Inl e \<Rightarrow> (Some e, fs)
      | Inr fs1 \<Rightarrow>
          (case write_file fs1 (log_path ulog) (dumps (log_to_json ulog)) of
             Inl e \<Rightarrow> (Some e, fs1)
           | Inr fs2 \<Rightarrow> (None, fs2)))"

text \<open>\<open>_load\<close>: what \<open>_sessions\<close> is after it, or the exception that leaves it.
  \<open>json.load\<close> (decoding and parsing) is the library's, a parameter.\<close>

definition load ::
  "(string \<Rightarrow> py_error + json) \<Rightarrow> path \<Rightarrow> filesystem \<Rightarrow> py_error + organization_session list" where
  "load json_load lp fs =
     (if path_exists fs lp
      then (let r = then_do (read_file fs lp) (\<lambda>text.
                    then_do (json_load text) (\<lambda>data.
                    then_do (dict_get data ''sessions'' (JArr [])) (\<lambda>v.
                    then_do (py_iter v) (\<lambda>items.
                      map_err session_from_dict items))))
            in case r of
                 Inl e \<Rightarrow> (if e = JSONDecodeError \<or> e = KeyError then Inr [] else Inl e)
               | Inr ss \<Rightarrow> Inr ss)
      else Inr [])"

definition UndoLog :: "(string \<Rightarrow> py_error + json) \<Rightarrow> path \<Rightarrow> filesystem \<Rightarrow> py_error + undo_log" where
  "UndoLog json_load lp fs =
     (case load json_load lp fs of
        Inl e \<Rightarrow> Inl e
      | Inr ss \<Rightarrow> Inr \<lparr>log_path = lp, store = nth ss, next_ref = length ss,
                        session_refs = [0..<length ss]\<rparr>)"

text \<open>\<open>create_session\<close> reads the clock twice: once for the id, once for the timestamp.\<close>

definition create_session ::
  "(json \<Rightarrow> string) \<Rightarrow> datetime \<Rightarrow> datetime \<Rightarrow> path \<Rightarrow> path \<Rightarrow> undo_log \<Rightarrow> filesystem
     \<Rightarrow> (py_error + nat) \<times> undo_log \<times> filesystem" where
  "create_session dumps now1 now2 source_dir out_dir ulog fs =
     (let session = \<lparr>session_id = strftime_id now1, timestamp = isoformat now2,
                      source_directory = source_dir, output_directory = out_dir,
                      operations = [], completed = False\<rparr>;
          r = next_ref ulog;
          ulog' = ulog\<lparr>store := (store ulog)(r := session), next_ref := Suc r,
                     session_refs := session_refs ulog @ [r]\<rparr>
      in case save dumps ulog' fs of
           (Some e, fs') \<Rightarrow> (Inl e, ulog', fs')
         | (None, fs') \<Rightarrow> (Inr r, ulog', fs'))"

definition add_operation ::
  "(json \<Rightarrow> string) \<Rightarrow> undo_log \<Rightarrow> nat \<Rightarrow> move_operation \<Rightarrow> filesystem
     \<Rightarrow> py_error option \<times> undo_log \<times> filesystem" where
  "add_operation dumps ulog r operation fs =
     (let s = store ulog r;
          ulog' = ulog\<lparr>store := (store ulog)(r := s\<lparr>operations := operations s @ [operation]\<rparr>)\<rparr>
      in case save dumps ulog' fs of (err, fs') \<Rightarrow> (err, ulog', fs'))"

definition complete_session ::
  "(json \<Rightarrow> string) \<Rightarrow> undo_log \<Rightarrow> nat \<Rightarrow> filesystem \<Rightarrow> py_error option \<times> undo_log \<times> filesystem" where
  "complete_session dumps ulog r fs =
     (let ulog' = ulog\<lparr>store := (store ulog)(r := (store ulog r)\<lparr>completed := True\<rparr>)\<rparr>
      in case save dumps ulog' fs of (err, fs') \<Rightarrow> (err, ulog', fs'))"

definition get_last_session :: "undo_log \<Rightarrow> nat option" where
  "get_last_session ulog = find (\<lambda>r. completed (store ulog r)) (rev (session_refs ulog))"

definition remove_session ::
  "(json \<Rightarrow> string) \<Rightarrow> undo_log \<Rightarrow> nat \<Rightarrow> filesystem \<Rightarrow> py_error option \<times> undo_log \<times> filesystem" where
  "remove_session dumps ulog r fs =
     (let ulog' = ulog\<lparr>session_refs :=
                       filter (\<lambda>q. session_id (store ulog q) \<noteq> session_id (store ulog r))
                         (session_refs ulog)\<rparr>
      in case save dumps ulog' fs of (err, fs') \<Rightarrow> (err, ulog', fs'))"

subsection \<open>FileMover\<close>

text \<open>Of \<open>Config\<close>, the mover reads the log's file name only.\<close>

record config =
  output_dir_name :: string
  undo_log_file :: string

definition DEFAULT_CONFIG :: config where
  "DEFAULT_CONFIG = \<lparr>output_dir_name = ''Organized'', undo_log_file = ''undo_log.json''\<rparr>"

record file_mover =
  output_dir :: path
  dry_run :: bool
  undo_log :: undo_log
  current_session :: "nat option"

definition FileMover ::
  "(string \<Rightarrow> py_error + json) \<Rightarrow> path \<Rightarrow> config \<Rightarrow> bool \<Rightarrow> filesystem \<Rightarrow> py_error + file_mover" where
  "FileMover json_load out cfg dry fs =
     (case UndoLog json_load (joinpath out (undo_log_file cfg)) fs of
        Inl e \<Rightarrow> Inl e
      | Inr ulog \<Rightarrow> Inr \<lparr>output_dir = out, dry_run = dry, undo_log = ulog,
                          current_session = None\<rparr>)"

definition start_session ::
  "(json \<Rightarrow> string) \<Rightarrow> datetime \<Rightarrow> datetime \<Rightarrow> path \<Rightarrow> file_mover \<Rightarrow> filesystem
     \<Rightarrow> py_error option \<times> file_mover \<times> filesystem" where
  "start_session dumps now1 now2 source_dir m fs =
     (if \<not> dry_run m
      then (case create_session dumps now1 now2 source_dir (output_dir m) (undo_log m) fs of
              (Inl e, ulog, fs') \<Rightarrow> (Some e, m\<lparr>undo_log := ulog\<rparr>, fs')
            | (Inr r, ulog, fs') \<Rightarrow>
                (None, m\<lparr>undo_log := ulog, current_session := Some r\<rparr>, fs'))
      else (None, m, fs))"

definition end_session ::
  "(json \<Rightarrow> string) \<Rightarrow> file_mover \<Rightarrow> filesystem \<Rightarrow> py_error option \<times> file_mover \<times> filesystem" where
  "end_session dumps m fs =
     (case current_session m of
        Some r \<Rightarrow>
          if \<not> dry_run m
          then (case complete_session dumps (undo_log m) r fs of
                  (err, ulog, fs') \<Rightarrow> (err, m\<lparr>undo_log := ulog\<rparr>, fs'))
          else (None, m, fs)
      | None \<Rightarrow> (None, m, fs))"

text \<open>Decimal printing is injective; the search for a free name below relies on it to
  end.\<close>

definition digit_val :: "char \<Rightarrow> nat" where
  "digit_val c =
     (case map_of (zip ''0123456789'' [0, 1, 2, 3, 4, 5, 6, 7, 8, 9]) c of
        Some d \<Rightarrow> d
      | None \<Rightarrow> 0)"

lemma digit_val_char: "d < 10 \<Longrightarrow> digit_val (digit_char d) = d"
proof -
  assume a: "d < 10"
  have "d = 0 \<or> d = 1 \<or> d = 2 \<or> d = 3 \<or> d = 4 \<or> d = 5 \<or> d = 6 \<or> d = 7 \<or> d = 8 \<or> d = 9"
    using a by arith
  then show ?thesis
    by (elim disjE; simp add: digit_char_def digit_val_def)
qed

lemma digit_inj: "a < 10 \<Longrightarrow> b < 10 \<Longrightarrow> digit_char a = digit_char b \<Longrightarrow> a = b"
  by (metis digit_val_char)

lemma show_nat_small: "n < 10 \<Longrightarrow> show_nat n = [digit_char n]"
  by (subst show_nat.simps) simp

lemma show_nat_large:
  "\<not> n < 10 \<Longrightarrow> show_nat n = show_nat (n div 10) @ [digit_char (n mod 10)]"
  by (subst show_nat.simps) simp

lemma show_nat_nonempty: "show_nat n \<noteq> []"
  by (cases "n < 10") (simp_all add: show_nat_small show_nat_large)

lemma show_nat_inj: "show_nat n = show_nat m \<Longrightarrow> n = m"
proof (induction n arbitrary: m rule: show_nat.induct)
  case (1 n)
  show ?case
  proof (cases "n < 10")
    case True
    have m: "m < 10"
    proof (rule ccontr)
      assume nm: "\<not> m < 10"
      show False
        using "1.prems" show_nat_nonempty[of "m div 10"]
        unfolding show_nat_small[OF True] show_nat_large[OF nm] by simp
    qed
    from "1.prems" have "digit_char n = digit_char m"
      unfolding show_nat_small[OF True] show_nat_small[OF m] by simp
    then show ?thesis using True m digit_inj by blast
  next
    case False
    have m: "\<not> m < 10"
    proof
      assume sm: "m < 10"
      show False
        using "1.prems" show_nat_nonempty[of "n div 10"]
        unfolding show_nat_small[OF sm] show_nat_large[OF False] by simp
    qed
    from "1.prems" have a: "show_nat (n div 10) = show_nat (m div 10)"
      and b: "digit_char (n mod 10) = digit_char (m mod 10)"
      unfolding show_nat_large[OF False] show_nat_large[OF m] by simp_all
    from "1.IH"[OF False a] have d: "n div 10 = m div 10" .
    from b have r: "n mod 10 = m mod 10" by (intro digit_inj) simp_all
    have "n = 10 * (n div 10) + n mod 10" by simp
    also have "\<dots> = 10 * (m div 10) + m mod 10" using d r by simp
    also have "\<dots> = m" by simp
    finally show ?thesis .
  qed
qed

text \<open>The \<open>while True\<close> loop of \<open>_get_unique_path\<close>. It ends on every filesystem: the
  candidate names are pairwise distinct and the filesystem holds finitely many entries.\<close>

function unique_loop :: "filesystem \<Rightarrow> path \<Rightarrow> string \<Rightarrow> string \<Rightarrow> nat \<Rightarrow> path" where
  "unique_loop fs parent_dir stem sfx counter =
     (let new_name = stem @ ''_'' @ show_nat counter @ sfx;
          new_path = join_name parent_dir new_name
      in if \<not> path_exists fs new_path then new_path
         else unique_loop fs parent_dir stem sfx (counter + 1))"
  by pat_completeness auto
termination
proof (relation "measure (\<lambda>(fs, d, stem, sfx, counter).
         card {k. counter \<le> k \<and> join_name d (stem @ ''_'' @ show_nat k @ sfx) \<in> set (map fst fs)})")
  show "wf (measure (\<lambda>(fs, d, stem, sfx, counter).
         card {k. counter \<le> k \<and> join_name d (stem @ ''_'' @ show_nat k @ sfx) \<in> set (map fst fs)}))"
    by simp
next
  fix fs :: filesystem and parent_dir :: path and stem sfx :: string and counter :: nat
    and x xa
  assume x: "x = stem @ ''_'' @ show_nat counter @ sfx" and xa: "xa = join_name parent_dir x"
    and ex: "\<not> \<not> path_exists fs xa"
  let ?c = "\<lambda>k. join_name parent_dir (stem @ ''_'' @ show_nat k @ sfx)"
  have inj: "inj ?c"
    by (rule injI) (simp add: join_name_def show_nat_inj)
  have fin: "finite {k. counter \<le> k \<and> ?c k \<in> set (map fst fs)}"
  proof -
    have "finite (?c -` set (map fst fs))" using inj by (intro finite_vimageI) simp_all
    then show ?thesis by (rule rev_finite_subset) auto
  qed
  have "map_of fs (?c counter) \<noteq> None"
    using ex x xa by (simp add: path_exists_def lookup_def join_name_def)
  then have mem: "?c counter \<in> set (map fst fs)"
    by (simp add: map_of_eq_None_iff)
  have "counter \<in> {k. counter \<le> k \<and> ?c k \<in> set (map fst fs)}"
    and "counter \<notin> {k. counter + 1 \<le> k \<and> ?c k \<in> set (map fst fs)}"
    and "{k. counter + 1 \<le> k \<and> ?c k \<in> set (map fst fs)}
          \<subseteq> {k. counter \<le> k \<and> ?c k \<in> set (map fst fs)}"
    using mem by auto
  then have "{k. counter + 1 \<le> k \<and> ?c k \<in> set (map fst fs)}
          \<subset> {k. counter \<le> k \<and> ?c k \<in> set (map fst fs)}"
    by blast
  then have "card {k. counter + 1 \<le> k \<and> ?c k \<in> set (map fst fs)}
          < card {k. counter \<le> k \<and> ?c k \<in> set (map fst fs)}"
    using fin by (rule psubset_card_mono[rotated])
  then show "((fs, parent_dir, stem, sfx, counter + 1), (fs, parent_dir, stem, sfx, counter))
      \<in> measure (\<lambda>(fs, d, stem, sfx, counter).
         card {k. counter \<le> k \<and> join_name d (stem @ ''_'' @ show_nat k @ sfx) \<in> set (map fst fs)})"
    by simp
qed

declare unique_loop.simps [simp del]

definition get_unique_path :: "filesystem \<Rightarrow> path \<Rightarrow> path" where
  "get_unique_path fs p =
     (if \<not> path_exists fs p then p
      else unique_loop fs (parent p) (stem_of p) (suffix_of p) 1)"

text \<open>\<open>move_file\<close>, with the clock reading of its timestamp. Every exception its \<open>try\<close>
  block can meet is an \<open>OSError\<close>, so the function returns an operation or \<open>None\<close>.\<close>

definition move_file ::
  "(json \<Rightarrow> string) \<Rightarrow> datetime \<Rightarrow> analysis_result \<Rightarrow> file_mover \<Rightarrow> filesystem
     \<Rightarrow> move_operation option \<times> file_mover \<times> filesystem" where
  "move_file dumps now result m fs =
     (let source_path = path (file_info result);
          category_path = cat_path (category result);
          dest_dir = joinpath (output_dir m) category_path;
          dest_file = get_unique_path fs (join_name dest_dir (path_name source_path));
          operation = \<lparr>source = source_path, destination = dest_file,
                        op_category = cat_name (category result),
                        op_reasoning = reasoning result, op_timestamp = isoformat now\<rparr>
      in if \<not> dry_run m
         then (case mkdir_parents fs dest_dir of
                 Inl e \<Rightarrow> (None, m, fs)
               | Inr fs1 \<Rightarrow>
                   (case shutil_move fs1 source_path dest_file of
                      Inl e \<Rightarrow> (None, m, fs1)
                    | Inr fs2 \<Rightarrow>
                        (case current_session m of
                           None \<Rightarrow> (Some operation, m, fs2)
                         | Some r \<Rightarrow>
                             (case add_operation dumps (undo_log m) r operation fs2 of
                                (Some e, ulog, fs3) \<Rightarrow> (None, m\<lparr>undo_log := ulog\<rparr>, fs3)
                              | (None, ulog, fs3) \<Rightarrow>
                                  (Some operation, m\<lparr>undo_log := ulog\<rparr>, fs3)))))
         else (Some operation, m, fs))"

text \<open>\<open>FileMover.organize_files\<close>: each result comes with the clock reading of its
  \<open>move_file\<close> call.\<close>

fun organize_files ::
  "(json \<Rightarrow> string) \<Rightarrow> (analysis_result \<times> datetime) list \<Rightarrow> file_mover \<Rightarrow> filesystem
     \<Rightarrow> move_operation option list \<times> file_mover \<times> filesystem" where
  "organize_files dumps [] m fs = ([], m, fs)"
| "organize_files dumps ((result, now) # rest) m fs =
     (case move_file dumps now result m fs of
        (operation, m1, fs1) \<Rightarrow>
          (case organize_files dumps rest m1 fs1 of
             (ops, m2, fs2) \<Rightarrow> (operation # ops, m2, fs2)))"

text \<open>One organize run on a mover, as \<open>organizer.organize_files\<close> brackets it:
  \<open>start_session\<close>, the moves, \<open>end_session\<close>.\<close>

definition organize_run ::
  "(json \<Rightarrow> string) \<Rightarrow> datetime \<Rightarrow> datetime \<Rightarrow> path \<Rightarrow> (analysis_result \<times> datetime) list
     \<Rightarrow> file_mover \<Rightarrow> filesystem
     \<Rightarrow> (py_error + move_operation option list) \<times> file_mover \<times> filesystem" where
  "organize_run dumps now1 now2 source_dir timed m fs =
     (case start_session dumps now1 now2 source_dir m fs of
        (Some e, m1, fs1) \<Rightarrow> (Inl e, m1, fs1)
      | (None, m1, fs1) \<Rightarrow>
          (case organize_files dumps timed m1 fs1 of
             (ops, m2, fs2) \<Rightarrow>
               (case end_session dumps m2 fs2 of
                  (Some e, m3, fs3) \<Rightarrow> (Inl e, m3, fs3)
                | (None, m3, fs3) \<Rightarrow> (Inr ops, m3, fs3))))"

subsection \<open>Undo\<close>

datatype undo_error = FailedToRestore string py_error | FileNotFound path

text \<open>The loop of \<open>undo_last_session\<close> over the operations it is given, with its two
  accumulators.\<close>

fun undo_operations ::
  "move_operation list \<Rightarrow> filesystem \<Rightarrow> (path \<times> path) list \<Rightarrow> undo_error list
     \<Rightarrow> filesystem \<times> (path \<times> path) list \<times> undo_error list" where
  "undo_operations [] fs moves errors = (fs, moves, errors)"
| "undo_operations (operation # rest) fs moves errors =
     (let source_path = source operation; dest = destination operation
      in if path_exists fs dest
         then (case mkdir_parents fs (parent source_path) of
                 Inl e \<Rightarrow>
                   undo_operations rest fs moves (errors @ [FailedToRestore (path_name dest) e])
               | Inr fs1 \<Rightarrow>
                   (case shutil_move fs1 dest source_path of
                      Inl e \<Rightarrow>
                        undo_operations rest fs1 moves
                          (errors @ [FailedToRestore (path_name dest) e])
                    | Inr fs2 \<Rightarrow>
                        undo_operations rest fs2 (moves @ [(dest, source_path)]) errors))
         else undo_operations rest fs moves (errors @ [FileNotFound dest]))"

text \<open>\<open>_cleanup_empty_dirs\<close>. The first argument is the recursion depth the interpreter
  still allows; the result is the exception that left the function, if any, and the
  filesystem as it is then.\<close>

fun cleanup_empty_dirs ::
    "nat \<Rightarrow> path \<Rightarrow> path \<Rightarrow> filesystem \<Rightarrow> py_error option \<times> filesystem"
  and cleanup_children ::
    "nat \<Rightarrow> path \<Rightarrow> path list \<Rightarrow> filesystem \<Rightarrow> py_error option \<times> filesystem" where
  "cleanup_empty_dirs 0 out directory fs = (Some RecursionError, fs)"
| "cleanup_empty_dirs (Suc depth) out directory fs =
     (if \<not> path_exists fs directory then (None, fs)
      else (case iterdir fs directory of
              Inl e \<Rightarrow> (Some e, fs)
            | Inr children \<Rightarrow>
                (case cleanup_children depth out children fs of
                   (Some e, fs1) \<Rightarrow> (Some e, fs1)
                 | (None, fs1) \<Rightarrow>
                     (None,
                      if path_exists fs1 directory \<and> iterdir fs1 directory = Inr []
                           \<and> directory \<noteq> out
                      then (case rmdir fs1 directory of Inl e \<Rightarrow> fs1 | Inr fs2 \<Rightarrow> fs2)
                      else fs1))))"
| "cleanup_children depth out [] fs = (None, fs)"
| "cleanup_children depth out (child # rest) fs =
     (if is_dir fs child
      then (case cleanup_empty_dirs depth out child fs of
              (Some e, fs1) \<Rightarrow> (Some e, fs1)
            | (None, fs1) \<Rightarrow> cleanup_children depth out rest fs1)
      else cleanup_children depth out rest fs)"

text \<open>\<open>undo_last_session\<close>: \<open>Inl\<close> is an exception that leaves it (from the cleanup or
  from saving the log), \<open>Inr\<close> the returned triple.\<close>

definition undo_last_session ::
  "nat \<Rightarrow> (json \<Rightarrow> string) \<Rightarrow> file_mover \<Rightarrow> filesystem
     \<Rightarrow> (py_error + bool \<times> string \<times> (path \<times> path) list) \<times> file_mover \<times> filesystem" where
  "undo_last_session depth dumps m fs =
     (case get_last_session (undo_log m) of
        None \<Rightarrow> (Inr (False, ''No sessions to undo'', []), m, fs)
      | Some r \<Rightarrow>
          (let session = store (undo_log m) r
           in case undo_operations (rev (operations session)) fs [] [] of
                (fs1, moves, errors) \<Rightarrow>
                  (case cleanup_empty_dirs depth (output_dir m) (output_directory session) fs1 of
                     (Some e, fs2) \<Rightarrow> (Inl e, m, fs2)
                   | (None, fs2) \<Rightarrow>
                       (case remove_session dumps (undo_log m) r fs2 of
                          (Some e, ulog, fs3) \<Rightarrow> (Inl e, m\<lparr>undo_log := ulog\<rparr>, fs3)
                        | (None, ulog, fs3) \<Rightarrow>
                            (Inr (if errors \<noteq> []
                                  then (False,
                                        ''Undo completed with '' @ show_nat (length errors)
                                          @ '' errors'', moves)
                                  else (True,
                                        ''Successfully undid '' @ show_nat (length moves)
                                          @ '' file moves'', moves)),
                             m\<lparr>undo_log := ulog\<rparr>, fs3)))))"

subsection \<open>Sample states for the mover\<close>

text \<open>Two clock readings fall in the same second when they differ at most in their
  microseconds.\<close>

definition same_second :: "datetime \<Rightarrow> datetime \<Rightarrow> bool" where
  "same_second t t' =
     (year t = year t' \<and> month t = month t' \<and> day t = day t'
      \<and> hour t = hour t' \<and> minute t = minute t' \<and> second t = second t')"

definition later_time :: datetime where
  "later_time = sample_time\<lparr>microsecond := 750000\<rparr>"

definition misc_cat :: category where
  "misc_cat = Category ''Miscellaneous'' ''Misc'' ''Uncategorized files'' {} {}"

definition mk_file :: "path \<Rightarrow> file_info" where
  "mk_file p = \<lparr>path = p, name = path_name p, extension = suffix_of p, size_bytes = 1,
                modified_time = sample_time, created_time = sample_time, content = None,
                mime_type = None\<rparr>"

text \<open>What the fallback tier returns for a file.\<close>

definition mk_result :: "path \<Rightarrow> analysis_result" where
  "mk_result p = \<lparr>file_info = mk_file p, category = misc_cat, confidence = 3 / 10,
                  reasoning = JStr ''No matching category found, using fallback'',
                  method_tag = ''fallback''\<rparr>"

definition empty_log :: "path \<Rightarrow> undo_log" where
  "empty_log lp = \<lparr>log_path = lp, store = nth [], next_ref = 0, session_refs = []\<rparr>"

text \<open>A mover as \<open>FileMover(out, dry_run=dry)\<close> builds it when no log file exists yet.\<close>

definition new_mover :: "path \<Rightarrow> bool \<Rightarrow> file_mover" where
  "new_mover out dry = \<lparr>output_dir = out, dry_run = dry,
                        undo_log = empty_log (out @ [''undo_log.json'']),
                        current_session = None\<rparr>"

definition const_dumps :: "json \<Rightarrow> string" where
  "const_dumps j = ''{}''"

definition reject_json :: "string \<Rightarrow> py_error + json" where
  "reject_json text = Inl JSONDecodeError"

text \<open>Two files of the same name in two source folders.\<close>

definition two_fs :: filesystem where
  "two_fs = [([''src''], Dir), ([''src'', ''a''], Dir), ([''src'', ''b''], Dir),
             ([''src'', ''a'', ''x.txt''], File ''A''),
             ([''src'', ''b'', ''x.txt''], File ''B'')]"

definition two_results :: "(analysis_result \<times> datetime) list" where
  "two_results = [(mk_result [''src'', ''a'', ''x.txt''], sample_time),
                  (mk_result [''src'', ''b'', ''x.txt''], later_time)]"

text \<open>An output folder whose log path is taken by a directory, and one whose log file
  holds text that is not JSON.\<close>

definition dir_at_log_fs :: filesystem where
  "dir_at_log_fs = [([''out''], Dir), ([''out'', ''undo_log.json''], Dir)]"

definition garbage_log_fs :: filesystem where
  "garbage_log_fs = [([''out''], Dir), ([''out'', ''undo_log.json''], File ''not json'')]"

text \<open>The state the sample run of two files ends in, and the state after its undo.\<close>

definition x_op :: "string \<Rightarrow> string \<Rightarrow> datetime \<Rightarrow> move_operation" where
  "x_op folder dest_name now =
     \<lparr>source = [''src'', folder, ''x.txt''], destination = [''out'', ''Misc'', dest_name],
      op_category = ''Miscellaneous'',
      op_reasoning = JStr ''No matching category found, using fallback'',
      op_timestamp = isoformat now\<rparr>"

definition two_session :: organization_session where
  "two_session = \<lparr>session_id = strftime_id sample_time, timestamp = isoformat later_time,
      source_directory = [''src''], output_directory = [''out''],
      operations = [x_op ''a'' ''x.txt'' sample_time, x_op ''b'' ''x_1.txt'' later_time],
      completed = True\<rparr>"

definition two_moved_fs :: filesystem where
  "two_moved_fs = [([''src''], Dir), ([''src'', ''a''], Dir), ([''src'', ''b''], Dir),
     ([''out''], Dir), ([''out'', ''undo_log.json''], File ''{}''),
     ([''out'', ''Misc''], Dir), ([''out'', ''Misc'', ''x.txt''], File ''A''),
     ([''out'', ''Misc'', ''x_1.txt''], File ''B'')]"

definition two_mover :: file_mover where
  "two_mover = \<lparr>output_dir = [''out''], dry_run = False,
      undo_log = \<lparr>log_path = [''out'', ''undo_log.json''], store = (nth [])(0 := two_session),
                   next_ref = 1, session_refs = [0]\<rparr>,
      current_session = Some 0\<rparr>"

definition two_restored_fs :: filesystem where
  "two_restored_fs = [([''src''], Dir), ([''src'', ''a''], Dir), ([''src'', ''b''], Dir),
     ([''out''], Dir), ([''out'', ''undo_log.json''], File ''{}''),
     ([''src'', ''b'', ''x.txt''], File ''B''),
     ([''src'', ''a'', ''x.txt''], File ''A'')]"

text \<open>A \<open>json.load\<close> that accepts every text as a log whose one session has no keys.\<close>

definition keyless_json :: "string \<Rightarrow> py_error + json" where
  "keyless_json text = Inr (JObj [(''sessions'', JArr [JObj []])])"



section \<open>Verified properties\<close>

subsection \<open>The classification cascade\<close>

lemma fallback_ok: "\<exists>c. get_fallback_category = Inr c"
  by (simp add: get_fallback_category_def CATEGORIES_def)

lemma analyze_by_rules_method:
  "\<exists>r. analyze_by_rules fi = Inr r \<and> method_tag r \<in> {''extension'', ''keyword'', ''fallback''}"
proof -
  obtain c where c: "get_fallback_category = Inr c" using fallback_ok by blast
  show ?thesis
    unfolding analyze_by_rules_def c
    by (simp split: option.split)
qed

lemma parse_ai_data_method:
  "parse_ai_data env fi data = Inr (Some r) \<Longrightarrow> method_tag r = ''ai''"
  unfolding parse_ai_data_def
  by (auto split: sum.splits option.splits)

lemma parse_ai_response_method:
  "parse_ai_response env fi resp = Inr (Some r) \<Longrightarrow> method_tag r = ''ai''"
  unfolding parse_ai_response_def Let_def
  by (auto split: sum.splits option.splits if_splits dest: parse_ai_data_method)

lemma analyze_with_ai_method:
  "analyze_with_ai env a fi = (Some r, a') \<Longrightarrow> method_tag r = ''ai''"
  unfolding analyze_with_ai_def
  by (auto split: prod.splits sum.splits option.splits if_splits dest: parse_ai_response_method)

text \<open>
  C7. \<open>analyze_file\<close> is total: for every backend, analyzer state and file record it returns
  one result and raises nothing (the exceptions of the model tier are all absorbed, and the
  fallback lookup \<open>CATEGORIES["misc"]\<close> succeeds), and the result's method tag is one of the
  four tier tags. The tag the code gives the model tier is the string \<open>ai\<close>.
\<close>

theorem analyze_file_total:
  "\<exists>r a'. analyze_file env a fi = Inr (r, a')
     \<and> method_tag r \<in> {''ai'', ''extension'', ''keyword'', ''fallback''}"
proof -
  obtain r0 where r0: "analyze_by_rules fi = Inr r0"
    and m0: "method_tag r0 \<in> {''extension'', ''keyword'', ''fallback''}"
    using analyze_by_rules_method by blast
  show ?thesis
  proof (cases "content fi \<noteq> None \<and> content fi \<noteq> Some []")
    case False
    then show ?thesis using r0 m0 by (auto simp: analyze_file_def)
  next
    case True
    obtain avail a1 where av: "ollama_available env a = (avail, a1)"
      by (cases "ollama_available env a")
    show ?thesis
    proof (cases avail)
      case False
      then show ?thesis using True av r0 m0 by (auto simp: analyze_file_def)
    next
      case avT: True
      obtain res a2 where ai: "analyze_with_ai env a1 fi = (res, a2)"
        by (cases "analyze_with_ai env a1 fi")
      show ?thesis
      proof (cases res)
        case None
        then show ?thesis using True av avT ai r0 m0 by (auto simp: analyze_file_def)
      next
        case (Some r)
        then have "method_tag r = ''ai''" using ai analyze_with_ai_method by blast
        then show ?thesis using True av avT ai Some by (auto simp: analyze_file_def)
      qed
    qed
  qed
qed

theorem analyze_file_total_witness:
  "\<exists>r a'. analyze_file (fixed_backend reply_text work_reply) fresh_analyzer sample_pdf = Inr (r, a')
     \<and> method_tag r \<in> {''ai'', ''extension'', ''keyword'', ''fallback''}"
  using analyze_file_total [of "fixed_backend reply_text work_reply" fresh_analyzer sample_pdf]
  by simp

lemma validate_work: "validate_category ''work'' = Some ''work''"
  by (simp add: validate_category_def CATEGORIES_def)

lemma map_of_work:
  "\<exists>c. map_of CATEGORIES ''work'' = Some c \<and> cat_name c = ''Work Documents''
       \<and> ''.pdf'' \<notin> extensions c"
  by (simp add: CATEGORIES_def Category_def)

lemma strip_reply: "strip reply_text = reply_text"
  by (simp add: strip_def reply_text_def is_space_def)

lemma fences_reply: "strip_fences reply_text = Inr reply_text"
  by (simp add: strip_fences_def reply_text_def)

lemma lower_work: "lower ''work'' = ''work''"
  by (simp add: lower_def lower_char_def)

text \<open>
  C4. The model tier bounds the confidence from above only (\<open>min(confidence, 1.0)\<close>): a
  backend answer with the confidence \<open>-0.5\<close> and a valid category is accepted, and the
  result that \<open>analyze_file\<close> returns for it has the confidence \<open>-0.5\<close>, below \<open>0.0\<close>.
\<close>

theorem negative_confidence_escapes:
  "\<exists>r a'. analyze_file (fixed_backend reply_text negative_reply) fresh_analyzer sample_pdf
             = Inr (r, a')
      \<and> method_tag r = ''ai'' \<and> confidence r = - (1 / 2) \<and> confidence r < 0"
proof -
  obtain c where c: "map_of CATEGORIES ''work'' = Some c" using map_of_work by blast
  have p: "parse_ai_data (fixed_backend reply_text negative_reply) sample_pdf negative_reply
        = Inr (Some \<lparr>file_info = sample_pdf, category = c, confidence = - (1 / 2),
                   reasoning = JStr ''looks like a report'', method_tag = ''ai''\<rparr>)"
    by (simp add: parse_ai_data_def negative_reply_def lower_work validate_work c)
  have q: "parse_ai_response (fixed_backend reply_text negative_reply) sample_pdf reply_text
        = Inr (Some \<lparr>file_info = sample_pdf, category = c, confidence = - (1 / 2),
                   reasoning = JStr ''looks like a report'', method_tag = ''ai''\<rparr>)"
    by (simp add: parse_ai_response_def fences_reply strip_reply p)
       (simp add: fixed_backend_def p[unfolded fixed_backend_def])
  show ?thesis
    by (simp add: analyze_file_def sample_pdf_def[symmetric] ollama_available_def
          get_client_def fresh_analyzer_def analyze_with_ai_def strip_reply q)
       (simp add: fixed_backend_def sample_pdf_def strip_reply
          q[unfolded fixed_backend_def sample_pdf_def])
qed

lemma lower_pdf: "lower ''.pdf'' = ''.pdf''"
  by (simp add: lower_def lower_char_def)

lemma pdf_registered: "\<exists>c \<in> set (map snd CATEGORIES). lower (extension sample_pdf) \<in> extensions c"
  by (simp add: sample_pdf_def lower_pdf CATEGORIES_def Category_def)

lemma work_reply_result:
  "\<exists>r a'. analyze_file (fixed_backend reply_text work_reply) fresh_analyzer sample_pdf = Inr (r, a')
      \<and> method_tag r = ''ai'' \<and> confidence r = 95 / 100 \<and> ''.pdf'' \<notin> extensions (category r)"
proof -
  obtain c where c: "map_of CATEGORIES ''work'' = Some c" and e: "''.pdf'' \<notin> extensions c"
    using map_of_work by blast
  have p: "parse_ai_data (fixed_backend reply_text work_reply) sample_pdf work_reply
        = Inr (Some \<lparr>file_info = sample_pdf, category = c, confidence = 95 / 100,
                   reasoning = JStr ''looks like a report'', method_tag = ''ai''\<rparr>)"
    by (simp add: parse_ai_data_def work_reply_def lower_work validate_work c)
  have q: "parse_ai_response (fixed_backend reply_text work_reply) sample_pdf reply_text
        = Inr (Some \<lparr>file_info = sample_pdf, category = c, confidence = 95 / 100,
                   reasoning = JStr ''looks like a report'', method_tag = ''ai''\<rparr>)"
    by (simp add: parse_ai_response_def fences_reply strip_reply p)
       (simp add: fixed_backend_def p[unfolded fixed_backend_def])
  show ?thesis
    by (simp add: analyze_file_def sample_pdf_def[symmetric] ollama_available_def
          get_client_def fresh_analyzer_def analyze_with_ai_def strip_reply q)
       (simp add: fixed_backend_def sample_pdf_def strip_reply e
          q[unfolded fixed_backend_def sample_pdf_def])
qed

text \<open>
  C6, as stated, fails: a file with a registered extension (\<open>.pdf\<close>) that has content is
  classified by the model tier when the backend answers, with the method tag \<open>ai\<close>, the
  backend's confidence and the backend's category.
\<close>

theorem registered_extension_counterexample:
  "\<not> (\<forall>env a fi. (\<exists>c \<in> set (map snd CATEGORIES). lower (extension fi) \<in> extensions c) \<longrightarrow>
        (\<exists>r a'. analyze_file env a fi = Inr (r, a') \<and> method_tag r = ''extension''
            \<and> confidence r = 9 / 10 \<and> lower (extension fi) \<in> extensions (category r)))"
proof
  assume h: "\<forall>env a fi. (\<exists>c \<in> set (map snd CATEGORIES). lower (extension fi) \<in> extensions c) \<longrightarrow>
        (\<exists>r a'. analyze_file env a fi = Inr (r, a') \<and> method_tag r = ''extension''
            \<and> confidence r = 9 / 10 \<and> lower (extension fi) \<in> extensions (category r))"
  from h pdf_registered
  obtain r a' where 1: "analyze_file (fixed_backend reply_text work_reply) fresh_analyzer sample_pdf = Inr (r, a')"
    and 2: "method_tag r = ''extension''" by blast
  from work_reply_result 1 have "method_tag r = ''ai''" by auto
  with 2 show False by simp
qed

lemma get_category_by_extension_Some:
  assumes "c \<in> set (map snd CATEGORIES)" "lower ext \<in> extensions c"
  shows "\<exists>c'. get_category_by_extension ext = Some c' \<and> c' \<in> set (map snd CATEGORIES)
            \<and> lower ext \<in> extensions c'"
proof -
  have "find (\<lambda>category. lower ext \<in> extensions category) (map snd CATEGORIES) \<noteq> None"
    using assms by (auto simp: find_None_iff)
  then obtain c' where f: "find (\<lambda>category. lower ext \<in> extensions category) (map snd CATEGORIES) = Some c'"
    by blast
  then have "c' \<in> set (map snd CATEGORIES) \<and> lower ext \<in> extensions c'"
    by (metis find_Some_iff nth_mem)
  with f show ?thesis by (simp add: get_category_by_extension_def)
qed

lemma analyze_file_no_model:
  "model_tier env a fi = None \<Longrightarrow>
     \<exists>a'. analyze_file env a fi = (case analyze_by_rules fi of Inl e \<Rightarrow> Inl e | Inr r \<Rightarrow> Inr (r, a'))"
  unfolding model_tier_def analyze_file_def
  by (auto split: if_splits prod.splits option.splits sum.splits)

text \<open>
  C6, amended: when the model tier yields nothing for the file (no content, backend
  unavailable, or no usable answer), a file whose lower-cased extension is in some registry
  category's extension set is classified with method \<open>extension\<close>, confidence \<open>0.9\<close>, and
  a registry category whose extension set holds the lower-cased extension.
\<close>

theorem registered_extension_without_model:
  assumes "model_tier env a fi = None"
    and "c \<in> set (map snd CATEGORIES)" and "lower (extension fi) \<in> extensions c"
  shows "\<exists>r a'. analyze_file env a fi = Inr (r, a') \<and> method_tag r = ''extension''
            \<and> confidence r = 9 / 10 \<and> category r \<in> set (map snd CATEGORIES)
            \<and> lower (extension fi) \<in> extensions (category r)"
proof -
  obtain c' where g: "get_category_by_extension (extension fi) = Some c'"
    and m: "c' \<in> set (map snd CATEGORIES)" "lower (extension fi) \<in> extensions c'"
    using get_category_by_extension_Some[OF assms(2,3)] by blast
  have r: "analyze_by_rules fi = Inr \<lparr>file_info = fi, category = c', confidence = 9 / 10,
               reasoning = JStr (''Matched by file extension: '' @ extension fi),
               method_tag = ''extension''\<rparr>"
    by (simp add: analyze_by_rules_def g)
  from analyze_file_no_model[OF assms(1)] obtain a' where
    "analyze_file env a fi = (case analyze_by_rules fi of Inl e \<Rightarrow> Inl e | Inr r \<Rightarrow> Inr (r, a'))"
    by blast
  then show ?thesis using r m by simp
qed

theorem registered_extension_without_model_witness:
  "model_tier (fixed_backend reply_text work_reply) fresh_analyzer (sample_pdf\<lparr>content := None\<rparr>) = None
   \<and> (\<exists>c. c \<in> set (map snd CATEGORIES) \<and> lower (extension (sample_pdf\<lparr>content := None\<rparr>)) \<in> extensions c)
   \<and> (\<exists>r a'. analyze_file (fixed_backend reply_text work_reply) fresh_analyzer (sample_pdf\<lparr>content := None\<rparr>) = Inr (r, a')
         \<and> method_tag r = ''extension'' \<and> confidence r = 9 / 10
         \<and> category r \<in> set (map snd CATEGORIES)
         \<and> lower (extension (sample_pdf\<lparr>content := None\<rparr>)) \<in> extensions (category r))"
proof -
  have m: "model_tier (fixed_backend reply_text work_reply) fresh_analyzer (sample_pdf\<lparr>content := None\<rparr>) = None"
    by (simp add: model_tier_def)
  obtain c where c: "c \<in> set (map snd CATEGORIES)" "lower (extension (sample_pdf\<lparr>content := None\<rparr>)) \<in> extensions c"
    using pdf_registered by auto
  from registered_extension_without_model[OF m c] m c show ?thesis by blast
qed

subsection \<open>Evaluating the model on concrete states\<close>

lemma parts_Misc: "parts ''Misc'' = [''Misc'']"
  by (simp add: parts_def split_def)

lemma unique_loop_free:
  "\<not> path_exists fs (join_name d (stem @ ''_'' @ show_nat c @ sfx)) \<Longrightarrow>
     unique_loop fs d stem sfx c = join_name d (stem @ ''_'' @ show_nat c @ sfx)"
  by (subst unique_loop.simps) (simp add: Let_def)

lemma unique_loop_taken:
  "path_exists fs (join_name d (stem @ ''_'' @ show_nat c @ sfx)) \<Longrightarrow>
     unique_loop fs d stem sfx c = unique_loop fs d stem sfx (Suc c)"
  by (subst unique_loop.simps) (simp add: Let_def)

lemma show_nat_digits:
  "show_nat 0 = ''0''" "show_nat (Suc 0) = ''1''" "show_nat 2 = ''2''"
  "show_nat (Suc (Suc 0)) = ''2''" "show_nat 3 = ''3''"
  by (simp_all add: show_nat_small digit_char_def)

lemmas fs_eval = path_exists_def lookup_def is_file_def is_dir_def parent_def path_name_def
  join_name_def joinpath_def mkdir_parents_def shutil_move_def os_rename_def write_file_def
  read_file_def iterdir_def rmdir_def stem_of_def suffix_of_def rfind_dot_def get_unique_path_def
  unique_loop_free unique_loop_taken show_nat_digits Let_def

lemmas mover_eval = move_file_def start_session_def end_session_def create_session_def save_def
  add_operation_def complete_session_def remove_session_def get_last_session_def
  organize_run_def undo_last_session_def sessions_def

lemmas sample_eval = new_mover_def empty_log_def mk_result_def mk_file_def misc_cat_def
  Category_def parts_Misc two_fs_def two_results_def const_dumps_def x_op_def two_session_def
  two_moved_fs_def two_mover_def two_restored_fs_def


lemma undo_two:
  "undo_last_session 2 const_dumps two_mover two_moved_fs
     = (Inr (True, ''Successfully undid 2 file moves'',
         [([''out'', ''Misc'', ''x_1.txt''], [''src'', ''b'', ''x.txt'']),
          ([''out'', ''Misc'', ''x.txt''], [''src'', ''a'', ''x.txt''])]),
        two_mover\<lparr>undo_log := (undo_log two_mover)\<lparr>session_refs := []\<rparr>\<rparr>, two_restored_fs)"
  by (simp add: fs_eval mover_eval sample_eval numeral_2_eq_2)

subsection \<open>The session log\<close>

lemma remove_session_sessions:
  "remove_session dumps ulog r fs = (err, ulog', fs') \<Longrightarrow>
   sessions ulog' = filter (\<lambda>s. session_id s \<noteq> session_id (store ulog r)) (sessions ulog)"
  by (auto simp: remove_session_def sessions_def Let_def filter_map comp_def split: prod.splits)

lemma get_last_session_None:
  "get_last_session ulog = None \<longleftrightarrow> (\<forall>s \<in> set (sessions ulog). \<not> completed s)"
  by (auto simp: get_last_session_def sessions_def find_None_iff)

lemma undo_last_session_unfold:
  assumes "get_last_session (undo_log m) = Some r"
    and "undo_operations (rev (operations (store (undo_log m) r))) fs [] [] = (fs1, moves, errors)"
    and "cleanup_empty_dirs depth (output_dir m) (output_directory (store (undo_log m) r)) fs1
           = (ce, fs2)"
    and "remove_session dumps (undo_log m) r fs2 = (se, ulog, fs3)"
  shows "undo_last_session depth dumps m fs =
     (case ce of
        Some e \<Rightarrow> (Inl e, m, fs2)
      | None \<Rightarrow>
         (case se of
            Some e \<Rightarrow> (Inl e, m\<lparr>undo_log := ulog\<rparr>, fs3)
          | None \<Rightarrow>
             (Inr (if errors \<noteq> []
                   then (False, ''Undo completed with '' @ show_nat (length errors) @ '' errors'',
                         moves)
                   else (True, ''Successfully undid '' @ show_nat (length moves) @ '' file moves'',
                         moves)),
              m\<lparr>undo_log := ulog\<rparr>, fs3)))"
  using assms by (simp add: undo_last_session_def Let_def split: option.splits)

lemma undo_sessions:
  assumes g: "get_last_session (undo_log m) = Some r"
    and u: "undo_last_session depth dumps m fs = (Inr res, m', fs')"
  shows "sessions (undo_log m')
     = filter (\<lambda>s. session_id s \<noteq> session_id (store (undo_log m) r)) (sessions (undo_log m))"
proof -
  obtain fs1 moves errors where a:
    "undo_operations (rev (operations (store (undo_log m) r))) fs [] [] = (fs1, moves, errors)"
    by (metis prod_cases3)
  obtain ce fs2 where b:
    "cleanup_empty_dirs depth (output_dir m) (output_directory (store (undo_log m) r)) fs1
       = (ce, fs2)"
    by (metis surj_pair)
  obtain se ulog fs3 where c: "remove_session dumps (undo_log m) r fs2 = (se, ulog, fs3)"
    by (metis prod_cases3)
  from u undo_last_session_unfold[OF g a b c] have "m' = m\<lparr>undo_log := ulog\<rparr>"
    by (auto split: option.splits)
  then show ?thesis using remove_session_sessions[OF c] by simp
qed

lemma strftime_same_second: "same_second t t' \<Longrightarrow> strftime_id t = strftime_id t'"
  by (simp add: same_second_def strftime_id_def)

lemma create_session_id:
  "create_session dumps now1 now2 sd od ulog fs = (res, ulog', fs') \<Longrightarrow>
     session_id (store ulog' (next_ref ulog)) = strftime_id now1
     \<and> session_refs ulog' = session_refs ulog @ [next_ref ulog]
     \<and> next_ref ulog' = Suc (next_ref ulog)
     \<and> (\<forall>q. q \<noteq> next_ref ulog \<longrightarrow> store ulog' q = store ulog q)"
  by (auto simp: create_session_def Let_def split: prod.splits option.splits)

text \<open>
  C10. \<open>remove_session\<close> keeps exactly the sessions whose id differs from the given
  session's id. \<open>create_session\<close> takes the id from the clock, cut to the second, so two
  sessions created within one second are two records with one id, and removing one removes
  both. \<open>undo_last_session\<close>, when it returns, leaves the log without every session that
  has the id of the session it undid.
\<close>

theorem remove_session_drops_every_session_with_the_id:
  "sessions (fst (snd (remove_session dumps ulog r fs)))
       = filter (\<lambda>s. session_id s \<noteq> session_id (store ulog r)) (sessions ulog)
   \<and> (same_second t1 t2 \<longrightarrow>
        (let ulog1 = fst (snd (create_session dumps t1 t1' sd1 od1 ulog fs));
             fs1 = snd (snd (create_session dumps t1 t1' sd1 od1 ulog fs));
             ulog2 = fst (snd (create_session dumps t2 t2' sd2 od2 ulog1 fs1));
             r1 = next_ref ulog; r2 = next_ref ulog1
         in r1 \<noteq> r2 \<and> r1 \<in> set (session_refs ulog2) \<and> r2 \<in> set (session_refs ulog2)
            \<and> session_id (store ulog2 r1) = session_id (store ulog2 r2)
            \<and> r1 \<notin> set (session_refs (fst (snd (remove_session dumps ulog2 r2 fs'))))
            \<and> r2 \<notin> set (session_refs (fst (snd (remove_session dumps ulog2 r2 fs'))))))
   \<and> (get_last_session (undo_log m) = Some r'
        \<and> undo_last_session depth dumps m fsa = (Inr res, m', fsb)
        \<longrightarrow> sessions (undo_log m')
             = filter (\<lambda>s. session_id s \<noteq> session_id (store (undo_log m) r'))
                 (sessions (undo_log m)))"
proof (intro conjI impI)
  show "sessions (fst (snd (remove_session dumps ulog r fs)))
       = filter (\<lambda>s. session_id s \<noteq> session_id (store ulog r)) (sessions ulog)"
    by (metis remove_session_sessions prod.collapse)
next
  assume s: "same_second t1 t2"
  obtain res1 ulog1 fs1
    where c1: "create_session dumps t1 t1' sd1 od1 ulog fs = (res1, ulog1, fs1)"
    by (metis prod_cases3)
  obtain res2 ulog2 fs2
    where c2: "create_session dumps t2 t2' sd2 od2 ulog1 fs1 = (res2, ulog2, fs2)"
    by (metis prod_cases3)
  note i1 = create_session_id[OF c1] and i2 = create_session_id[OF c2]
  have ne: "next_ref ulog \<noteq> next_ref ulog1" using i1 by simp
  have id1: "session_id (store ulog2 (next_ref ulog)) = strftime_id t1" using i1 i2 ne by simp
  have id2: "session_id (store ulog2 (next_ref ulog1)) = strftime_id t2" using i2 by simp
  have ids: "session_id (store ulog2 (next_ref ulog)) = session_id (store ulog2 (next_ref ulog1))"
    using id1 id2 strftime_same_second[OF s] by simp
  have refs: "next_ref ulog \<in> set (session_refs ulog2)"
    "next_ref ulog1 \<in> set (session_refs ulog2)"
    using i1 i2 by simp_all
  have rm: "\<And>q. session_id (store ulog2 q) = session_id (store ulog2 (next_ref ulog1)) \<Longrightarrow>
       q \<notin> set (session_refs (fst (snd (remove_session dumps ulog2 (next_ref ulog1) fs'))))"
    by (simp add: remove_session_def Let_def split: prod.splits)
  show "let ulog1 = fst (snd (create_session dumps t1 t1' sd1 od1 ulog fs));
             fs1 = snd (snd (create_session dumps t1 t1' sd1 od1 ulog fs));
             ulog2 = fst (snd (create_session dumps t2 t2' sd2 od2 ulog1 fs1));
             r1 = next_ref ulog; r2 = next_ref ulog1
         in r1 \<noteq> r2 \<and> r1 \<in> set (session_refs ulog2) \<and> r2 \<in> set (session_refs ulog2)
            \<and> session_id (store ulog2 r1) = session_id (store ulog2 r2)
            \<and> r1 \<notin> set (session_refs (fst (snd (remove_session dumps ulog2 r2 fs'))))
            \<and> r2 \<notin> set (session_refs (fst (snd (remove_session dumps ulog2 r2 fs'))))"
    unfolding Let_def c1 c2 fst_conv snd_conv
    using ne refs ids rm[OF ids] rm[OF refl] by simp
next
  assume "get_last_session (undo_log m) = Some r'
     \<and> undo_last_session depth dumps m fsa = (Inr res, m', fsb)"
  then show "sessions (undo_log m')
             = filter (\<lambda>s. session_id s \<noteq> session_id (store (undo_log m) r'))
                 (sessions (undo_log m))"
    using undo_sessions by blast
qed

lemma same_second_sample: "same_second sample_time later_time"
  by (simp add: same_second_def later_time_def sample_time_def)

lemma get_last_two: "get_last_session (undo_log two_mover) = Some 0"
  by (simp add: get_last_session_def two_mover_def two_session_def)

theorem remove_session_drops_every_session_with_the_id_witness:
  "same_second sample_time later_time
   \<and> (let ulog1 = fst (snd (create_session const_dumps sample_time sample_time [''src''] [''out'']
                               (empty_log [''out'', ''undo_log.json'']) []));
           fs1 = snd (snd (create_session const_dumps sample_time sample_time [''src''] [''out'']
                               (empty_log [''out'', ''undo_log.json'']) []));
           ulog2 = fst (snd (create_session const_dumps later_time later_time [''src''] [''out'']
                               ulog1 fs1));
           r1 = next_ref (empty_log [''out'', ''undo_log.json'']); r2 = next_ref ulog1
       in r1 \<noteq> r2 \<and> r1 \<in> set (session_refs ulog2) \<and> r2 \<in> set (session_refs ulog2)
          \<and> session_id (store ulog2 r1) = session_id (store ulog2 r2)
          \<and> r1 \<notin> set (session_refs (fst (snd (remove_session const_dumps ulog2 r2 []))))
          \<and> r2 \<notin> set (session_refs (fst (snd (remove_session const_dumps ulog2 r2 [])))))
   \<and> get_last_session (undo_log two_mover) = Some 0
   \<and> sessions (undo_log (two_mover\<lparr>undo_log := (undo_log two_mover)\<lparr>session_refs := []\<rparr>\<rparr>))
        = filter (\<lambda>s. session_id s \<noteq> session_id (store (undo_log two_mover) 0))
            (sessions (undo_log two_mover))"
proof -
  note T = remove_session_drops_every_session_with_the_id
      [where dumps = const_dumps and ulog = "empty_log [''out'', ''undo_log.json'']" and r = 0
         and fs = "[]" and ?t1.0 = sample_time and ?t2.0 = later_time and t1' = sample_time
         and ?sd1.0 = "[''src'']" and ?od1.0 = "[''out'']" and t2' = later_time
         and ?sd2.0 = "[''src'']" and ?od2.0 = "[''out'']" and fs' = "[]" and m = two_mover
         and r' = 0 and depth = 2 and fsa = two_moved_fs
         and res = "(True, ''Successfully undid 2 file moves'',
              [([''out'', ''Misc'', ''x_1.txt''], [''src'', ''b'', ''x.txt'']),
               ([''out'', ''Misc'', ''x.txt''], [''src'', ''a'', ''x.txt''])])"
         and m' = "two_mover\<lparr>undo_log := (undo_log two_mover)\<lparr>session_refs := []\<rparr>\<rparr>"
         and fsb = two_restored_fs]
  from T have a: "same_second sample_time later_time \<longrightarrow>
     (let ulog1 = fst (snd (create_session const_dumps sample_time sample_time [''src''] [''out'']
                               (empty_log [''out'', ''undo_log.json'']) []));
           fs1 = snd (snd (create_session const_dumps sample_time sample_time [''src''] [''out'']
                               (empty_log [''out'', ''undo_log.json'']) []));
           ulog2 = fst (snd (create_session const_dumps later_time later_time [''src''] [''out'']
                               ulog1 fs1));
           r1 = next_ref (empty_log [''out'', ''undo_log.json'']); r2 = next_ref ulog1
       in r1 \<noteq> r2 \<and> r1 \<in> set (session_refs ulog2) \<and> r2 \<in> set (session_refs ulog2)
          \<and> session_id (store ulog2 r1) = session_id (store ulog2 r2)
          \<and> r1 \<notin> set (session_refs (fst (snd (remove_session const_dumps ulog2 r2 []))))
          \<and> r2 \<notin> set (session_refs (fst (snd (remove_session const_dumps ulog2 r2 [])))))"
    by (rule conjunct1[OF conjunct2])
  from T have b: "get_last_session (undo_log two_mover) = Some 0
        \<and> undo_last_session 2 const_dumps two_mover two_moved_fs
            = (Inr (True, ''Successfully undid 2 file moves'',
              [([''out'', ''Misc'', ''x_1.txt''], [''src'', ''b'', ''x.txt'']),
               ([''out'', ''Misc'', ''x.txt''], [''src'', ''a'', ''x.txt''])]),
               two_mover\<lparr>undo_log := (undo_log two_mover)\<lparr>session_refs := []\<rparr>\<rparr>, two_restored_fs)
        \<longrightarrow> sessions (undo_log (two_mover\<lparr>undo_log := (undo_log two_mover)\<lparr>session_refs := []\<rparr>\<rparr>))
             = filter (\<lambda>s. session_id s \<noteq> session_id (store (undo_log two_mover) 0))
                 (sessions (undo_log two_mover))"
    by (rule conjunct2[OF conjunct2])
  show ?thesis
    using a b same_second_sample get_last_two undo_two by blast
qed

text \<open>
  C9. When no session of the log is completed (in particular when the log is empty, as it
  is when no log file exists), \<open>undo_last_session\<close> returns failure with the message
  \<open>No sessions to undo\<close> and no restored move, and leaves the filesystem and the mover as
  they were.
\<close>

theorem undo_without_completed_session:
  "(\<forall>s \<in> set (sessions (undo_log m)). \<not> completed s) \<longrightarrow>
     undo_last_session depth dumps m fs = (Inr (False, ''No sessions to undo'', []), m, fs)"
proof
  assume "\<forall>s \<in> set (sessions (undo_log m)). \<not> completed s"
  then have "get_last_session (undo_log m) = None"
    using get_last_session_None by blast
  then show "undo_last_session depth dumps m fs
      = (Inr (False, ''No sessions to undo'', []), m, fs)"
    by (simp add: undo_last_session_def)
qed

lemma FileMover_absent_log:
  "FileMover reject_json [''out''] DEFAULT_CONFIG False two_fs = Inr (new_mover [''out''] False)"
  by (simp add: FileMover_def UndoLog_def load_def fs_eval DEFAULT_CONFIG_def two_fs_def
      parts_def split_def new_mover_def empty_log_def)

theorem undo_without_completed_session_witness:
  "FileMover reject_json [''out''] DEFAULT_CONFIG False two_fs = Inr (new_mover [''out''] False)
   \<and> sessions (undo_log (new_mover [''out''] False)) = []
   \<and> undo_last_session 2 const_dumps (new_mover [''out''] False) two_fs
       = (Inr (False, ''No sessions to undo'', []), new_mover [''out''] False, two_fs)"
  using undo_without_completed_session[of "new_mover [''out''] False" 2 const_dumps two_fs]
    FileMover_absent_log
  by (simp add: sessions_def new_mover_def empty_log_def)

lemma read_file_exists: "read_file fs lp = Inr text \<Longrightarrow> path_exists fs lp"
  by (auto simp: read_file_def path_exists_def split: option.splits node.splits)

lemma UndoLog_of_load:
  "load json_load lp fs = Inr [] \<Longrightarrow>
     \<exists>ulog. UndoLog json_load lp fs = Inr ulog \<and> log_path ulog = lp \<and> sessions ulog = []"
  by (simp add: UndoLog_def sessions_def)

text \<open>
  C8, as stated, fails: a log path that cannot be read (here it is a directory, so
  \<open>open\<close> raises \<open>IsADirectoryError\<close>) makes the constructor raise; \<open>_load\<close> catches
  \<open>JSONDecodeError\<close> and \<open>KeyError\<close> only.
\<close>

theorem unreadable_log_counterexample:
  "UndoLog reject_json [''out'', ''undo_log.json''] dir_at_log_fs = Inl IsADirectoryError"
  by (simp add: UndoLog_def load_def dir_at_log_fs_def path_exists_def lookup_def read_file_def
      then_do_def)

text \<open>
  C8, amended: when the log file can be read and its text does not parse
  (\<open>JSONDecodeError\<close>), or parses to a document whose sessions cannot be built because a
  required key is missing (\<open>KeyError\<close>), the log is constructed with an empty session list
  and nothing is raised.
\<close>

theorem corrupt_log_loads_empty:
  "read_file fs lp = Inr text
   \<and> (json_load text = Inl JSONDecodeError
      \<or> (\<exists>data. json_load text = Inr data
            \<and> then_do (dict_get data ''sessions'' (JArr []))
                 (\<lambda>v. then_do (py_iter v) (\<lambda>items. map_err session_from_dict items))
                = Inl KeyError))
   \<longrightarrow> (\<exists>ulog. UndoLog json_load lp fs = Inr ulog \<and> log_path ulog = lp \<and> sessions ulog = [])"
proof
  assume h: "read_file fs lp = Inr text
   \<and> (json_load text = Inl JSONDecodeError
      \<or> (\<exists>data. json_load text = Inr data
            \<and> then_do (dict_get data ''sessions'' (JArr []))
                 (\<lambda>v. then_do (py_iter v) (\<lambda>items. map_err session_from_dict items))
                = Inl KeyError))"
  then have e: "path_exists fs lp" using read_file_exists by blast
  from h have "load json_load lp fs = Inr []"
    by (auto simp: load_def e then_do_def)
  then show "\<exists>ulog. UndoLog json_load lp fs = Inr ulog \<and> log_path ulog = lp \<and> sessions ulog = []"
    by (rule UndoLog_of_load)
qed

lemma read_garbage: "read_file garbage_log_fs [''out'', ''undo_log.json''] = Inr ''not json''"
  by (simp add: read_file_def garbage_log_fs_def lookup_def)

lemma keyless_KeyError:
  "then_do (dict_get (JObj [(''sessions'', JArr [JObj []])]) ''sessions'' (JArr []))
     (\<lambda>v. then_do (py_iter v) (\<lambda>items. map_err session_from_dict items)) = Inl KeyError"
  by (simp add: then_do_def session_from_dict_def)

theorem corrupt_log_loads_empty_witness:
  "read_file garbage_log_fs [''out'', ''undo_log.json''] = Inr ''not json''
   \<and> reject_json ''not json'' = Inl JSONDecodeError
   \<and> (\<exists>ulog. UndoLog reject_json [''out'', ''undo_log.json''] garbage_log_fs = Inr ulog
         \<and> log_path ulog = [''out'', ''undo_log.json''] \<and> sessions ulog = [])
   \<and> (\<exists>ulog. UndoLog keyless_json [''out'', ''undo_log.json''] garbage_log_fs = Inr ulog
         \<and> log_path ulog = [''out'', ''undo_log.json''] \<and> sessions ulog = [])"
proof -
  have r: "reject_json ''not json'' = Inl JSONDecodeError" by (simp add: reject_json_def)
  have k: "\<exists>data. keyless_json ''not json'' = Inr data
            \<and> then_do (dict_get data ''sessions'' (JArr []))
                 (\<lambda>v. then_do (py_iter v) (\<lambda>items. map_err session_from_dict items))
                = Inl KeyError"
    using keyless_KeyError by (simp add: keyless_json_def)
  show ?thesis
    using corrupt_log_loads_empty[of garbage_log_fs "[''out'', ''undo_log.json'']" "''not json''"
            reject_json]
          corrupt_log_loads_empty[of garbage_log_fs "[''out'', ''undo_log.json'']" "''not json''"
            keyless_json]
          read_garbage r k
    by blast
qed

subsection \<open>Collision resolution\<close>






subsection \<open>The undo loop\<close>






subsection \<open>Dry run\<close>








end
